theory Spec2Isabelle
  imports Main
begin

section \<open>XinFin HTLC transactions: data\<close>

text \<open>
  The development follows \<^verbatim>\<open>swap/providers/xinfin/transaction.py\<close> and
  \<^verbatim>\<open>swap/providers/xinfin/solver.py\<close>. Python exceptions are values of the type
  \<open>error\<close>; a method that mutates \<open>self\<close> returns the object it leaves behind
  together with its result, also when it raises, because an assignment made before the
  raise stays in the object.
\<close>

datatype error =
    ValueError string
  | TypeError string
  | AddressError string "string option"
  | UnitError string string
  | NetworkError string string
  | IndexError string
  | OtherError string string

text \<open>The dict that web3's \<^verbatim>\<open>buildTransaction\<close> returns, with the keys in the order
  the docstring of \<^verbatim>\<open>Transaction.json\<close> shows them.\<close>

record transaction_dict =
  chainId :: int
  tx_from :: string
  tx_value :: int
  nonce :: int
  gas :: int
  gasPrice :: int
  tx_to :: string
  tx_data :: string

text \<open>The dict that \<^verbatim>\<open>sign\<close> stores in \<^verbatim>\<open>self._signature\<close>.\<close>

record signature_dict =
  sig_hash :: string
  sig_rawTransaction :: string
  sig_r :: int
  sig_s :: int
  sig_v :: int

text \<open>The attributes of a \<^verbatim>\<open>Transaction\<close> instance (\<^verbatim>\<open>self._network\<close>, ...).\<close>

record transaction =
  self_network :: string
  self_transaction :: "transaction_dict option"
  self_signature :: "signature_dict option"
  self_type :: "string option"
  self_fee :: "int option"

datatype role = Fund | Withdraw | Refund

subsection \<open>Collaborators\<close>

type_synonym bytes = "char list"

text \<open>eth_account's \<^verbatim>\<open>SignedTransaction\<close>.\<close>

record signed_transaction =
  st_rawTransaction :: bytes
  st_hash :: bytes
  st_r :: int
  st_s :: int
  st_v :: int

record agreements =
  secret_hash :: string
  recipient_address :: string
  sender_address :: string
  endtime :: int

text \<open>An \<^verbatim>\<open>HTLC\<close> instance, as far as the builders read it: \<^verbatim>\<open>htlc.agreements\<close>,
  \<^verbatim>\<open>htlc.contract_address()\<close> and \<^verbatim>\<open>htlc.abi()\<close>.\<close>

record htlc =
  htlc_agreements :: agreements
  contract_address :: string
  abi :: string

text \<open>The \<^verbatim>\<open>htlc\<close> argument of \<^verbatim>\<open>FundTransaction.build_transaction\<close>: Python
  accepts any object there and the method tests it with \<^verbatim>\<open>isinstance\<close>.\<close>

datatype htlc_arg = HTLCInstance htlc | NotHTLC

datatype contract = Contract string string

text \<open>\<^verbatim>\<open>htlc_contract.functions.fund(...)\<close>, \<^verbatim>\<open>.withdraw(...)\<close> and \<^verbatim>\<open>.refund(...)\<close>.\<close>

datatype contract_function =
    FundFunction contract string string string int
  | WithdrawFunction contract string string
  | RefundFunction contract string

text \<open>The dict given to \<^verbatim>\<open>estimateGas\<close> and the dict given to \<^verbatim>\<open>buildTransaction\<close>.\<close>

record estimate_params =
  e_from :: string
  e_value :: int
  e_nonce :: int
  e_gasPrice :: int

record build_params =
  b_from :: string
  b_value :: int
  b_nonce :: int
  b_gas :: int
  b_gasPrice :: int

text \<open>What \<^verbatim>\<open>buildTransaction\<close> adds to the caller's dict.\<close>

record filled =
  f_chainId :: int
  f_to :: string
  f_data :: string

record receipt =
  logs :: "string list"

datatype wallet = Wallet (private_key: string)

typedecl pyfloat

datatype number = IntNum int | FloatNum pyfloat

text \<open>
  The requests a builder sends to the node. The node is not under the program's control:
  its answer to a request depends on the moment the request is made, which the model
  counts as the number of requests sent before it. The list of requests sent so far is
  the \<open>world\<close>.
\<close>

datatype request =
    Get_transaction_count string
  | GasPrice
  | EstimateGas contract_function estimate_params
  | BuildTransaction contract_function build_params
  | Get_transaction_receipt string
  | HTLC_init "string option" string

type_synonym world = "request list"

text \<open>
  Everything the two modules import and call but do not define: the validators and
  converters of \<^verbatim>\<open>utils\<close>, the configuration, the node behind web3 (each answer
  indexed by the moment of the request), the wallet derivation and eth_account's signing
  function.
\<close>

record env =
  is_network :: "string \<Rightarrow> bool"
  is_address :: "string \<Rightarrow> bool"
  to_checksum_address :: "string \<Rightarrow> string \<Rightarrow> string"
  amount_unit_converter :: "int option \<Rightarrow> string \<Rightarrow> error + number"
  clean_transaction_raw :: "string \<Rightarrow> string"
  config_network :: string
  config_BIP44 :: "int \<Rightarrow> int \<Rightarrow> int \<Rightarrow> string"
  web3_get_transaction_count :: "nat \<Rightarrow> string \<Rightarrow> error + int"
  web3_gasPrice :: "nat \<Rightarrow> error + int"
  web3_estimateGas :: "nat \<Rightarrow> contract_function \<Rightarrow> estimate_params \<Rightarrow> error + int"
  web3_fill_transaction :: "nat \<Rightarrow> contract_function \<Rightarrow> build_params \<Rightarrow> error + filled"
  web3_get_transaction_receipt :: "nat \<Rightarrow> string \<Rightarrow> error + receipt"
  web3_processLog :: "contract \<Rightarrow> string \<Rightarrow> error + string"
  HTLC_from_transaction :: "nat \<Rightarrow> string option \<Rightarrow> string \<Rightarrow> error + htlc"
  Wallet_from_path :: "string \<Rightarrow> string \<Rightarrow> string \<Rightarrow> error + wallet"
  sign_transaction :: "transaction_dict option \<Rightarrow> string \<Rightarrow> error + signed_transaction"

definition rpc :: "request \<Rightarrow> (nat \<Rightarrow> error + 'a) \<Rightarrow> world \<Rightarrow> (error + 'a) \<times> world" where
  "rpc q answer w = (answer (length w), w @ [q])"

text \<open>web3's \<^verbatim>\<open>buildTransaction\<close> keeps every field the caller gives and fills in the
  chain id, the contract's address and the encoded call.\<close>

definition buildTransaction ::
  "env \<Rightarrow> contract_function \<Rightarrow> build_params \<Rightarrow> nat \<Rightarrow> error + transaction_dict" where
  "buildTransaction e f b t =
     (case web3_fill_transaction e t f b of
        Inl x \<Rightarrow> Inl x
      | Inr fl \<Rightarrow> Inr \<lparr>chainId = f_chainId fl, tx_from = b_from b, tx_value = b_value b,
                     nonce = b_nonce b, gas = b_gas b, gasPrice = b_gasPrice b,
                     tx_to = f_to fl, tx_data = f_data fl\<rparr>)"

definition quote :: string where
  "quote = [CHR 0x27]"

section \<open>Solvers\<close>

text \<open>An instance of one of the three solver classes, holding \<^verbatim>\<open>_xprivate_key\<close> and
  \<^verbatim>\<open>_path\<close>, or an object of another class, of which only the class name matters.\<close>

datatype solver =
    FundSolver string string
  | WithdrawSolver string string
  | RefundSolver string string
  | OtherObject string

fun type_name :: "solver \<Rightarrow> string" where
  "type_name (FundSolver _ _) = ''FundSolver''"
| "type_name (WithdrawSolver _ _) = ''WithdrawSolver''"
| "type_name (RefundSolver _ _) = ''RefundSolver''"
| "type_name (OtherObject n) = n"

text \<open>The constructors: \<^verbatim>\<open>path\<close> defaults to the BIP44 template.\<close>

definition init_path :: "env \<Rightarrow> int \<Rightarrow> bool \<Rightarrow> int \<Rightarrow> string option \<Rightarrow> string" where
  "init_path e account change address path =
     (case path of
        None \<Rightarrow> config_BIP44 e account (if change then 1 else 0) address
      | Some p \<Rightarrow> p)"

definition FundSolver_init :: "env \<Rightarrow> string \<Rightarrow> int \<Rightarrow> bool \<Rightarrow> int \<Rightarrow> string option \<Rightarrow> solver" where
  "FundSolver_init e xprivate_key account change address path =
     FundSolver xprivate_key (init_path e account change address path)"

definition WithdrawSolver_init :: "env \<Rightarrow> string \<Rightarrow> int \<Rightarrow> bool \<Rightarrow> int \<Rightarrow> string option \<Rightarrow> solver" where
  "WithdrawSolver_init e xprivate_key account change address path =
     WithdrawSolver xprivate_key (init_path e account change address path)"

definition RefundSolver_init :: "env \<Rightarrow> string \<Rightarrow> int \<Rightarrow> bool \<Rightarrow> int \<Rightarrow> string option \<Rightarrow> solver" where
  "RefundSolver_init e xprivate_key account change address path =
     RefundSolver xprivate_key (init_path e account change address path)"

text \<open>\<^verbatim>\<open>solve\<close>, the same in the three classes; \<^verbatim>\<open>sign\<close> calls it without a network,
  so the configured default is used.\<close>

definition solve :: "env \<Rightarrow> string \<Rightarrow> string \<Rightarrow> error + wallet" where
  "solve e xprivate_key path = Wallet_from_path e (config_network e) xprivate_key path"

section \<open>The portable encoding\<close>

text \<open>
  The values \<^verbatim>\<open>transaction_raw\<close> hands to \<^verbatim>\<open>json.dumps\<close>: \<^verbatim>\<open>None\<close>, integers,
  strings and dicts with string keys, in insertion order. Strings are lists of 8-bit
  characters, read as code points below 256.
\<close>

datatype json = JNull | JInt int | JStr string | JObj "(string \<times> json) list"

definition dquote :: char where
  "dquote = CHR 0x22"

definition backslash :: char where
  "backslash = CHR 0x5C"

definition hexdigit :: "nat \<Rightarrow> char" where
  "hexdigit n = ''0123456789abcdef'' ! n"

definition digit :: "nat \<Rightarrow> char" where
  "digit n = ''0123456789'' ! n"

fun dec :: "nat \<Rightarrow> string" where
  "dec n = (if n < 10 then [digit n] else dec (n div 10) @ [digit (n mod 10)])"

declare dec.simps [simp del]

text \<open>\<^verbatim>\<open>int.__repr__\<close>, which \<^verbatim>\<open>json.dumps\<close> uses for integers.\<close>

definition repr_int :: "int \<Rightarrow> string" where
  "repr_int i = (if i < 0 then CHR ''-'' # dec (nat (- i)) else dec (nat i))"

text \<open>\<^verbatim>\<open>json.encoder.py_encode_basestring_ascii\<close>: the quote and the backslash are
  escaped, the five short escapes are used, every other character outside the printable
  ASCII range becomes \<^verbatim>\<open>\u00XX\<close>.\<close>

definition escape_char :: "char \<Rightarrow> string" where
  "escape_char c =
     (if c = dquote then [backslash, dquote]
      else if c = backslash then [backslash, backslash]
      else if c = CHR 0x0A then [backslash, CHR ''n'']
      else if c = CHR 0x0D then [backslash, CHR ''r'']
      else if c = CHR 0x09 then [backslash, CHR ''t'']
      else if c = CHR 0x08 then [backslash, CHR ''b'']
      else if c = CHR 0x0C then [backslash, CHR ''f'']
      else if 32 \<le> (of_char c :: nat) \<and> (of_char c :: nat) \<le> 126 then [c]
      else [backslash, CHR ''u'', CHR ''0'', CHR ''0'',
            hexdigit (of_char c div 16), hexdigit (of_char c mod 16)])"

definition dumps_str :: "string \<Rightarrow> string" where
  "dumps_str s = dquote # concat (map escape_char s) @ [dquote]"

text \<open>\<^verbatim>\<open>json.dumps\<close> with its default separators \<^verbatim>\<open>", "\<close> and \<^verbatim>\<open>": "\<close>.\<close>

fun json_dumps :: "json \<Rightarrow> string" and dumps_items :: "(string \<times> json) list \<Rightarrow> string" where
  "json_dumps JNull = ''null''"
| "json_dumps (JInt i) = repr_int i"
| "json_dumps (JStr s) = dumps_str s"
| "json_dumps (JObj kvs) = ''{'' @ dumps_items kvs @ ''}''"
| "dumps_items [] = []"
| "dumps_items [(k, v)] = dumps_str k @ '': '' @ json_dumps v"
| "dumps_items ((k, v) # kv # kvs) =
     dumps_str k @ '': '' @ json_dumps v @ '', '' @ dumps_items (kv # kvs)"

text \<open>\<^verbatim>\<open>str.encode()\<close>: UTF-8, here for code points below 256.\<close>

definition utf8 :: "char \<Rightarrow> bytes" where
  "utf8 c =
     (if (of_char c :: nat) < 128 then [c]
      else [char_of (192 + (of_char c :: nat) div 64), char_of (128 + (of_char c :: nat) mod 64)])"

definition str_encode :: "string \<Rightarrow> bytes" where
  "str_encode s = concat (map utf8 s)"

definition b64chars :: string where
  "b64chars = ''ABCDEFGHIJKLMNOPQRSTUVWXYZabcdefghijklmnopqrstuvwxyz0123456789+/''"

definition b64 :: "nat \<Rightarrow> char" where
  "b64 n = b64chars ! n"

text \<open>\<^verbatim>\<open>base64.b64encode(...).decode()\<close>: the standard alphabet with \<^verbatim>\<open>=\<close> padding; the
  result is ASCII, so decoding the bytes to a string keeps every character.\<close>

fun b64encode :: "bytes \<Rightarrow> string" where
  "b64encode [] = []"
| "b64encode [a] =
     [b64 (of_char a div 4), b64 (of_char a mod 4 * 16), CHR ''='', CHR ''='']"
| "b64encode [a, b] =
     [b64 (of_char a div 4), b64 (of_char a mod 4 * 16 + of_char b div 16),
      b64 (of_char b mod 16 * 4), CHR ''='']"
| "b64encode (a # b # c # bs) =
     [b64 (of_char a div 4), b64 (of_char a mod 4 * 16 + of_char b div 16),
      b64 (of_char b mod 16 * 4 + of_char c div 64), b64 (of_char c mod 64)] @ b64encode bs"

definition transaction_json :: "transaction_dict \<Rightarrow> json" where
  "transaction_json t =
     JObj [(''chainId'', JInt (chainId t)), (''from'', JStr (tx_from t)),
           (''value'', JInt (tx_value t)), (''nonce'', JInt (nonce t)),
           (''gas'', JInt (gas t)), (''gasPrice'', JInt (gasPrice t)),
           (''to'', JStr (tx_to t)), (''data'', JStr (tx_data t))]"

definition signature_json :: "signature_dict \<Rightarrow> json" where
  "signature_json g =
     JObj [(''hash'', JStr (sig_hash g)), (''rawTransaction'', JStr (sig_rawTransaction g)),
           (''r'', JInt (sig_r g)), (''s'', JInt (sig_s g)), (''v'', JInt (sig_v g))]"

definition json_option :: "('a \<Rightarrow> json) \<Rightarrow> 'a option \<Rightarrow> json" where
  "json_option f x = (case x of None \<Rightarrow> JNull | Some y \<Rightarrow> f y)"

text \<open>The dict literal of \<^verbatim>\<open>transaction_raw\<close>.\<close>

definition raw_dict :: "transaction \<Rightarrow> json" where
  "raw_dict self =
     JObj [(''fee'', json_option JInt (self_fee self)),
           (''transaction'', json_option transaction_json (self_transaction self)),
           (''signature'', json_option signature_json (self_signature self)),
           (''network'', JStr (self_network self)),
           (''type'', json_option JStr (self_type self))]"

section \<open>class Transaction\<close>

definition Transaction_init :: "env \<Rightarrow> string \<Rightarrow> error + transaction" where
  "Transaction_init e network =
     (if \<not> is_network e network
      then Inl (NetworkError (''Invalid XinFin '' @ quote @ network @ quote @ '' network'')
                  (''choose only '' @ quote @ ''mainnet'' @ quote @ '', '' @ quote @ ''ropsten''
                   @ quote @ '', '' @ quote @ ''kovan'' @ quote @ '', '' @ quote @ ''rinkeby''
                   @ quote @ '' or '' @ quote @ ''testnet'' @ quote @ '' networks.''))
      else Inr \<lparr>self_network = network, self_transaction = None, self_signature = None,
                self_type = None, self_fee = None\<rparr>)"

definition not_built :: error where
  "not_built = ValueError ''Transaction is none, build transaction first.''"

definition Transaction_fee :: "env \<Rightarrow> transaction \<Rightarrow> string \<Rightarrow> error + number option" where
  "Transaction_fee e self unit =
     (case self_transaction self of
        None \<Rightarrow> Inl not_built
      | Some _ \<Rightarrow>
          if unit \<notin> set [''XDC'', ''Gwei'', ''Wei'']
          then Inl (UnitError (''Invalid XinFin '' @ quote @ unit @ quote @ '' unit'')
                      (''choose only '' @ quote @ ''XDC'' @ quote @ '', '' @ quote @ ''Gwei''
                       @ quote @ '' or '' @ quote @ ''Wei'' @ quote @ '' units.''))
          else if unit = ''Wei'' then Inr (map_option IntNum (self_fee self))
          else (case amount_unit_converter e (self_fee self) (''Wei2'' @ unit) of
                  Inl x \<Rightarrow> Inl x
                | Inr n \<Rightarrow> Inr (Some n)))"

definition Transaction_hash :: "transaction \<Rightarrow> error + string option" where
  "Transaction_hash self =
     (case self_transaction self of
        None \<Rightarrow> Inl not_built
      | Some _ \<Rightarrow> Inr (case self_signature self of None \<Rightarrow> None | Some g \<Rightarrow> Some (sig_hash g)))"

definition Transaction_json :: "transaction \<Rightarrow> error + transaction_dict" where
  "Transaction_json self =
     (case self_transaction self of None \<Rightarrow> Inl not_built | Some t \<Rightarrow> Inr t)"

definition Transaction_raw :: "transaction \<Rightarrow> error + string option" where
  "Transaction_raw self =
     (case self_transaction self of
        None \<Rightarrow> Inl not_built
      | Some _ \<Rightarrow>
          Inr (case self_signature self of None \<Rightarrow> None | Some g \<Rightarrow> Some (sig_rawTransaction g)))"

definition Transaction_type :: "transaction \<Rightarrow> error + string option" where
  "Transaction_type self =
     (case self_transaction self of None \<Rightarrow> Inl not_built | Some _ \<Rightarrow> Inr (self_type self))"

definition Transaction_signature :: "transaction \<Rightarrow> error + signature_dict option" where
  "Transaction_signature self =
     (case self_transaction self of None \<Rightarrow> Inl not_built | Some _ \<Rightarrow> Inr (self_signature self))"

definition Transaction_transaction_raw :: "env \<Rightarrow> transaction \<Rightarrow> error + string" where
  "Transaction_transaction_raw e self =
     (case self_transaction self of
        None \<Rightarrow> Inl not_built
      | Some _ \<Rightarrow>
          Inr (clean_transaction_raw e (b64encode (str_encode (json_dumps (raw_dict self))))))"

section \<open>Building\<close>

text \<open>
  The three builders end with the same two statements: \<^verbatim>\<open>self._fee = f.estimateGas({...})\<close>
  and \<^verbatim>\<open>self._transaction = f.buildTransaction({...})\<close>, followed by the assignment of
  \<^verbatim>\<open>self._type\<close>. Each dict literal is evaluated left to right, so each of the two
  statements asks the node for the transaction count, then for the gas price, and then
  makes its call. A request that raises ends the method with the assignments made so far.
\<close>

definition estimate_then_build ::
  "env \<Rightarrow> transaction \<Rightarrow> world \<Rightarrow> contract_function \<Rightarrow> string \<Rightarrow> int \<Rightarrow> string
     \<Rightarrow> (error + unit) \<times> transaction \<times> world" where
  "estimate_then_build e self w f address amount ty =
     (let sender = to_checksum_address e address ''0x'' in
      case rpc (Get_transaction_count sender) (\<lambda>t. web3_get_transaction_count e t sender) w of
        (Inl x, w1) \<Rightarrow> (Inl x, self, w1)
      | (Inr n1, w1) \<Rightarrow>
     (case rpc GasPrice (web3_gasPrice e) w1 of
        (Inl x, w2) \<Rightarrow> (Inl x, self, w2)
      | (Inr g1, w2) \<Rightarrow>
     (let p = \<lparr>e_from = sender, e_value = amount, e_nonce = n1, e_gasPrice = g1\<rparr> in
      case rpc (EstimateGas f p) (\<lambda>t. web3_estimateGas e t f p) w2 of
        (Inl x, w3) \<Rightarrow> (Inl x, self, w3)
      | (Inr fee, w3) \<Rightarrow>
     (let self1 = self\<lparr>self_fee := Some fee\<rparr> in
      case rpc (Get_transaction_count sender) (\<lambda>t. web3_get_transaction_count e t sender) w3 of
        (Inl x, w4) \<Rightarrow> (Inl x, self1, w4)
      | (Inr n2, w4) \<Rightarrow>
     (case rpc GasPrice (web3_gasPrice e) w4 of
        (Inl x, w5) \<Rightarrow> (Inl x, self1, w5)
      | (Inr g2, w5) \<Rightarrow>
     (let b = \<lparr>b_from = sender, b_value = amount, b_nonce = n2, b_gas = fee, b_gasPrice = g2\<rparr> in
      case rpc (BuildTransaction f b) (buildTransaction e f b) w5 of
        (Inl x, w6) \<Rightarrow> (Inl x, self1, w6)
      | (Inr tx, w6) \<Rightarrow>
          (Inr (), self1\<lparr>self_transaction := Some tx, self_type := Some ty\<rparr>, w6)))))))"

definition FundTransaction_build_transaction ::
  "env \<Rightarrow> transaction \<Rightarrow> world \<Rightarrow> string \<Rightarrow> htlc_arg \<Rightarrow> int \<Rightarrow> (error + unit) \<times> transaction \<times> world" where
  "FundTransaction_build_transaction e self w address htlc amount =
     (case htlc of
        NotHTLC \<Rightarrow> (Inl (TypeError ''Invalid HTLC instance, only takes xinfin HTLC class''), self, w)
      | HTLCInstance h \<Rightarrow>
          if \<not> is_address e address
          then (Inl (AddressError (''Invalid XinFin sender '' @ quote @ address @ quote @ '' address.'')
                       None), self, w)
          else if to_checksum_address e address ''0x'' \<noteq> sender_address (htlc_agreements h)
          then (Inl (AddressError (''Wrong XinFin sender '' @ quote @ address @ quote @ '' address'')
                       (Some ''address must be equal with HTLC agreements sender address.'')), self, w)
          else
            (let htlc_contract = Contract (contract_address h) (abi h);
                 htlc_fund_function =
                   FundFunction htlc_contract (secret_hash (htlc_agreements h))
                     (recipient_address (htlc_agreements h)) (sender_address (htlc_agreements h))
                     (endtime (htlc_agreements h))
             in estimate_then_build e self w htlc_fund_function address amount ''xinfin_fund_unsigned''))"

text \<open>Withdraw and refund first find the locked contract id in the first log of the funding
  transaction's receipt; \<^verbatim>\<open>transaction_receipt["logs"][0]\<close> raises on an empty list.\<close>

definition locked_contract ::
  "env \<Rightarrow> transaction \<Rightarrow> world \<Rightarrow> string \<Rightarrow> string option
     \<Rightarrow> (error + contract \<times> string) \<times> world" where
  "locked_contract e self w transaction_hash htlc_transaction_hash =
     (case rpc (HTLC_init htlc_transaction_hash (self_network self))
             (\<lambda>t. HTLC_from_transaction e t htlc_transaction_hash (self_network self)) w of
        (Inl x, w1) \<Rightarrow> (Inl x, w1)
      | (Inr h, w1) \<Rightarrow>
     (let htlc_contract = Contract (contract_address h) (abi h) in
      case rpc (Get_transaction_receipt transaction_hash)
             (\<lambda>t. web3_get_transaction_receipt e t transaction_hash) w1 of
        (Inl x, w2) \<Rightarrow> (Inl x, w2)
      | (Inr transaction_receipt, w2) \<Rightarrow>
     (case logs transaction_receipt of
        [] \<Rightarrow> (Inl (IndexError ''list index out of range''), w2)
      | l # _ \<Rightarrow>
     (case web3_processLog e htlc_contract l of
        Inl x \<Rightarrow> (Inl x, w2)
      | Inr locked_contract_id \<Rightarrow> (Inr (htlc_contract, locked_contract_id), w2)))))"

definition WithdrawTransaction_build_transaction ::
  "env \<Rightarrow> transaction \<Rightarrow> world \<Rightarrow> string \<Rightarrow> string \<Rightarrow> string \<Rightarrow> string option
     \<Rightarrow> (error + unit) \<times> transaction \<times> world" where
  "WithdrawTransaction_build_transaction e self w transaction_hash address secret_key
       htlc_transaction_hash =
     (if \<not> is_address e address
      then (Inl (AddressError (''Invalid XinFin recipient '' @ quote @ address @ quote @ '' address.'')
                   None), self, w)
      else
        (case locked_contract e self w transaction_hash htlc_transaction_hash of
           (Inl x, w') \<Rightarrow> (Inl x, self, w')
         | (Inr (htlc_contract, locked_contract_id), w') \<Rightarrow>
             estimate_then_build e self w'
               (WithdrawFunction htlc_contract locked_contract_id secret_key) address 0
               ''xinfin_withdraw_unsigned''))"

definition RefundTransaction_build_transaction ::
  "env \<Rightarrow> transaction \<Rightarrow> world \<Rightarrow> string \<Rightarrow> string \<Rightarrow> string option
     \<Rightarrow> (error + unit) \<times> transaction \<times> world" where
  "RefundTransaction_build_transaction e self w transaction_hash address htlc_transaction_hash =
     (if \<not> is_address e address
      then (Inl (AddressError (''Invalid XinFin recipient '' @ quote @ address @ quote @ '' address.'')
                   None), self, w)
      else
        (case locked_contract e self w transaction_hash htlc_transaction_hash of
           (Inl x, w') \<Rightarrow> (Inl x, self, w')
         | (Inr (htlc_contract, locked_contract_id), w') \<Rightarrow>
             estimate_then_build e self w'
               (RefundFunction htlc_contract locked_contract_id) address 0
               ''xinfin_refund_unsigned''))"

text \<open>The arguments of a \<^verbatim>\<open>build_transaction\<close> call, by class.\<close>

datatype build_args =
    FundArgs string htlc_arg int
  | WithdrawArgs string string string "string option"
  | RefundArgs string string "string option"

fun args_role :: "build_args \<Rightarrow> role" where
  "args_role (FundArgs _ _ _) = Fund"
| "args_role (WithdrawArgs _ _ _ _) = Withdraw"
| "args_role (RefundArgs _ _ _) = Refund"

fun build_transaction ::
  "env \<Rightarrow> transaction \<Rightarrow> world \<Rightarrow> build_args \<Rightarrow> (error + unit) \<times> transaction \<times> world" where
  "build_transaction e self w (FundArgs address htlc amount) =
     FundTransaction_build_transaction e self w address htlc amount"
| "build_transaction e self w (WithdrawArgs transaction_hash address secret_key htlc_transaction_hash) =
     WithdrawTransaction_build_transaction e self w transaction_hash address secret_key
       htlc_transaction_hash"
| "build_transaction e self w (RefundArgs transaction_hash address htlc_transaction_hash) =
     RefundTransaction_build_transaction e self w transaction_hash address htlc_transaction_hash"

section \<open>Signing\<close>

text \<open>\<^verbatim>\<open>HexBytes.hex()\<close>.\<close>

definition hex :: "bytes \<Rightarrow> string" where
  "hex bs = ''0x'' @ concat (map (\<lambda>c. [hexdigit (of_char c div 16), hexdigit (of_char c mod 16)]) bs)"

definition signature_of :: "signed_transaction \<Rightarrow> signature_dict" where
  "signature_of signed =
     \<lparr>sig_hash = hex (st_hash signed), sig_rawTransaction = hex (st_rawTransaction signed),
      sig_r = st_r signed, sig_s = st_s signed, sig_v = st_v signed\<rparr>"

text \<open>After the \<^verbatim>\<open>isinstance\<close> test the three \<^verbatim>\<open>sign\<close> methods run the same statements:
  solve, sign \<^verbatim>\<open>self._transaction\<close> with the wallet's private key, store the signature
  and the type.\<close>

definition sign_with ::
  "env \<Rightarrow> transaction \<Rightarrow> string \<Rightarrow> string \<Rightarrow> string \<Rightarrow> (error + unit) \<times> transaction" where
  "sign_with e self xprivate_key path ty =
     (case solve e xprivate_key path of
        Inl x \<Rightarrow> (Inl x, self)
      | Inr wallet \<Rightarrow>
     (case sign_transaction e (self_transaction self) (private_key wallet) of
        Inl x \<Rightarrow> (Inl x, self)
      | Inr signed \<Rightarrow>
          (Inr (), self\<lparr>self_signature := Some (signature_of signed), self_type := Some ty\<rparr>)))"

definition solver_type_error :: "string \<Rightarrow> solver \<Rightarrow> error" where
  "solver_type_error expected solver =
     TypeError (''Solver must be XinFin '' @ expected @ '', not '' @ type_name solver @ '' type.'')"

definition FundTransaction_sign :: "env \<Rightarrow> transaction \<Rightarrow> solver \<Rightarrow> (error + unit) \<times> transaction" where
  "FundTransaction_sign e self solver =
     (case solver of
        FundSolver xprivate_key path \<Rightarrow> sign_with e self xprivate_key path ''xinfin_fund_signed''
      | _ \<Rightarrow> (Inl (solver_type_error ''FundSolver'' solver), self))"

definition WithdrawTransaction_sign :: "env \<Rightarrow> transaction \<Rightarrow> solver \<Rightarrow> (error + unit) \<times> transaction" where
  "WithdrawTransaction_sign e self solver =
     (case solver of
        WithdrawSolver xprivate_key path \<Rightarrow>
          sign_with e self xprivate_key path ''xinfin_withdraw_signed''
      | _ \<Rightarrow> (Inl (solver_type_error ''WithdrawSolver'' solver), self))"

definition RefundTransaction_sign :: "env \<Rightarrow> transaction \<Rightarrow> solver \<Rightarrow> (error + unit) \<times> transaction" where
  "RefundTransaction_sign e self solver =
     (case solver of
        RefundSolver xprivate_key path \<Rightarrow> sign_with e self xprivate_key path ''xinfin_refund_signed''
      | _ \<Rightarrow> (Inl (solver_type_error ''RefundSolver'' solver), self))"

text \<open>\<^verbatim>\<open>sign\<close> of the class of the given role.\<close>

fun sign :: "env \<Rightarrow> role \<Rightarrow> transaction \<Rightarrow> solver \<Rightarrow> (error + unit) \<times> transaction" where
  "sign e Fund self solver = FundTransaction_sign e self solver"
| "sign e Withdraw self solver = WithdrawTransaction_sign e self solver"
| "sign e Refund self solver = RefundTransaction_sign e self solver"

fun solver_role :: "solver \<Rightarrow> role option" where
  "solver_role (FundSolver _ _) = Some Fund"
| "solver_role (WithdrawSolver _ _) = Some Withdraw"
| "solver_role (RefundSolver _ _) = Some Refund"
| "solver_role (OtherObject _) = None"

fun solver_class :: "role \<Rightarrow> string" where
  "solver_class Fund = ''FundSolver''"
| "solver_class Withdraw = ''WithdrawSolver''"
| "solver_class Refund = ''RefundSolver''"

section \<open>Decoding the portable encoding\<close>

text \<open>
  The way back uses Python's \<^verbatim>\<open>base64.b64decode\<close>, \<^verbatim>\<open>bytes.decode\<close> and
  \<^verbatim>\<open>json.loads\<close>, modelled for the values the encoder writes: base64 text is read
  with or without its trailing \<^verbatim>\<open>=\<close> padding, UTF-8 for code points below 256, JSON
  with \<^verbatim>\<open>null\<close>, integers, strings and objects. The JSON reader counts its nested
  calls down from a bound that the length of the text never exceeds.
\<close>

definition strip_padding :: "string \<Rightarrow> string" where
  "strip_padding s = rev (dropWhile (\<lambda>c. c = CHR ''='') (rev s))"

definition b64val :: "char \<Rightarrow> nat option" where
  "b64val c =
     (let n = (of_char c :: nat) in
      if 65 \<le> n \<and> n \<le> 90 then Some (n - 65)
      else if 97 \<le> n \<and> n \<le> 122 then Some (n - 71)
      else if 48 \<le> n \<and> n \<le> 57 then Some (n + 4)
      else if c = CHR ''+'' then Some 62
      else if c = CHR ''/'' then Some 63
      else None)"

fun b64decode_chars :: "string \<Rightarrow> bytes option" where
  "b64decode_chars [] = Some []"
| "b64decode_chars [a] = None"
| "b64decode_chars [a, b] =
     (case (b64val a, b64val b) of
        (Some p, Some q) \<Rightarrow> Some [char_of (p * 4 + q div 16)]
      | _ \<Rightarrow> None)"
| "b64decode_chars [a, b, c] =
     (case (b64val a, b64val b, b64val c) of
        (Some p, Some q, Some r) \<Rightarrow>
          Some [char_of (p * 4 + q div 16), char_of (q mod 16 * 16 + r div 4)]
      | _ \<Rightarrow> None)"
| "b64decode_chars (a # b # c # d # s) =
     (case (b64val a, b64val b, b64val c, b64val d) of
        (Some p, Some q, Some r, Some t) \<Rightarrow>
          (case b64decode_chars s of
             None \<Rightarrow> None
           | Some bs \<Rightarrow>
               Some (char_of (p * 4 + q div 16) # char_of (q mod 16 * 16 + r div 4)
                     # char_of (r mod 4 * 64 + t) # bs))
      | _ \<Rightarrow> None)"

definition b64decode :: "string \<Rightarrow> bytes option" where
  "b64decode s = b64decode_chars (strip_padding s)"

definition is_digit :: "char \<Rightarrow> bool" where
  "is_digit c \<longleftrightarrow> 48 \<le> (of_char c :: nat) \<and> (of_char c :: nat) \<le> 57"

definition is_space :: "char \<Rightarrow> bool" where
  "is_space c \<longleftrightarrow> c = CHR '' '' \<or> c = CHR 0x09 \<or> c = CHR 0x0A \<or> c = CHR 0x0D"

definition skip_space :: "string \<Rightarrow> string" where
  "skip_space s = dropWhile is_space s"

definition digits_value :: "string \<Rightarrow> nat" where
  "digits_value ds = foldl (\<lambda>n c. n * 10 + (of_char c - 48)) 0 ds"

definition loads_int :: "string \<Rightarrow> (int \<times> string) option" where
  "loads_int s =
     (case s of
        [] \<Rightarrow> None
      | c # r \<Rightarrow>
          if c = CHR ''-''
          then (if takeWhile is_digit r = [] then None
                else Some (- int (digits_value (takeWhile is_digit r)), dropWhile is_digit r))
          else (if takeWhile is_digit s = [] then None
                else Some (int (digits_value (takeWhile is_digit s)), dropWhile is_digit s)))"

definition hexval :: "char \<Rightarrow> nat option" where
  "hexval c =
     (let n = (of_char c :: nat) in
      if 48 \<le> n \<and> n \<le> 57 then Some (n - 48)
      else if 97 \<le> n \<and> n \<le> 102 then Some (n - 87)
      else if 65 \<le> n \<and> n \<le> 70 then Some (n - 55)
      else None)"

definition unescape :: "char \<Rightarrow> char option" where
  "unescape c =
     (if c = dquote then Some dquote
      else if c = backslash then Some backslash
      else if c = CHR ''/'' then Some (CHR ''/'')
      else if c = CHR ''n'' then Some (CHR 0x0A)
      else if c = CHR ''r'' then Some (CHR 0x0D)
      else if c = CHR ''t'' then Some (CHR 0x09)
      else if c = CHR ''b'' then Some (CHR 0x08)
      else if c = CHR ''f'' then Some (CHR 0x0C)
      else None)"

definition unicode_escape :: "char \<Rightarrow> char \<Rightarrow> char \<Rightarrow> char \<Rightarrow> char option" where
  "unicode_escape a b c d =
     (case (hexval a, hexval b, hexval c, hexval d) of
        (Some p, Some q, Some r, Some t) \<Rightarrow>
          if p = 0 \<and> q = 0 then Some (char_of (r * 16 + t)) else None
      | _ \<Rightarrow> None)"

fun loads_chars :: "string \<Rightarrow> (string \<times> string) option" where
  "loads_chars [] = None"
| "loads_chars (c # s) =
     (if c = dquote then Some ([], s)
      else if c = backslash then
        (case s of
           [] \<Rightarrow> None
         | e # s1 \<Rightarrow>
             if e = CHR ''u'' then
               (case s1 of
                  a # b # c # d # s2 \<Rightarrow>
                    (case unicode_escape a b c d of
                       None \<Rightarrow> None
                     | Some x \<Rightarrow>
                         (case loads_chars s2 of
                            None \<Rightarrow> None
                          | Some (xs, rest) \<Rightarrow> Some (x # xs, rest)))
                | _ \<Rightarrow> None)
             else
               (case unescape e of
                  None \<Rightarrow> None
                | Some x \<Rightarrow>
                    (case loads_chars s1 of
                       None \<Rightarrow> None
                     | Some (xs, rest) \<Rightarrow> Some (x # xs, rest))))
      else
        (case loads_chars s of
           None \<Rightarrow> None
         | Some (xs, rest) \<Rightarrow> Some (c # xs, rest)))"

fun loads_value :: "nat \<Rightarrow> string \<Rightarrow> (json \<times> string) option"
  and loads_members :: "nat \<Rightarrow> string \<Rightarrow> ((string \<times> json) list \<times> string) option" where
  "loads_value 0 s = None"
| "loads_value (Suc n) s =
     (case skip_space s of
        [] \<Rightarrow> None
      | c # r \<Rightarrow>
          if c = dquote then
            (case loads_chars r of None \<Rightarrow> None | Some (x, rest) \<Rightarrow> Some (JStr x, rest))
          else if c = CHR ''{'' then
            (case skip_space r of
               [] \<Rightarrow> None
             | c1 # r1 \<Rightarrow>
                 if c1 = CHR ''}'' then Some (JObj [], r1)
                 else (case loads_members n (c1 # r1) of
                         None \<Rightarrow> None
                       | Some (kvs, rest) \<Rightarrow> Some (JObj kvs, rest)))
          else if take 4 (c # r) = ''null'' then Some (JNull, drop 4 (c # r))
          else (case loads_int (c # r) of None \<Rightarrow> None | Some (i, rest) \<Rightarrow> Some (JInt i, rest)))"
| "loads_members 0 s = None"
| "loads_members (Suc n) s =
     (case s of
        [] \<Rightarrow> None
      | c # r \<Rightarrow>
          if c \<noteq> dquote then None
          else
            (case loads_chars r of
               None \<Rightarrow> None
             | Some (k, r1) \<Rightarrow>
                 (case skip_space r1 of
                    [] \<Rightarrow> None
                  | c1 # r2 \<Rightarrow>
                      if c1 \<noteq> CHR '':'' then None
                      else
                        (case loads_value n r2 of
                           None \<Rightarrow> None
                         | Some (v, r3) \<Rightarrow>
                             (case skip_space r3 of
                                [] \<Rightarrow> None
                              | c2 # r4 \<Rightarrow>
                                  if c2 = CHR ''}'' then Some ([(k, v)], r4)
                                  else if c2 = CHR '','' then
                                    (case loads_members n (skip_space r4) of
                                       None \<Rightarrow> None
                                     | Some (kvs, rest) \<Rightarrow> Some ((k, v) # kvs, rest))
                                  else None)))))"

definition json_loads :: "string \<Rightarrow> json option" where
  "json_loads s =
     (case loads_value (Suc (length s)) s of
        None \<Rightarrow> None
      | Some (v, rest) \<Rightarrow> if skip_space rest = [] then Some v else None)"

section \<open>A worked example\<close>

text \<open>
  Concrete collaborators, with the addresses, keys and amounts of the docstrings. The node
  of \<open>demo_env\<close> answers every request the same way at every moment; signing is a
  stand-in for ECDSA whose result depends on the key and on the transaction, and which,
  like eth_account's \<^verbatim>\<open>sign_transaction\<close>, refuses \<^verbatim>\<open>None\<close> and refuses a
  transaction whose \<^verbatim>\<open>from\<close> field is not the address of the key. The
  node of \<open>racing_env\<close> sees another transaction of the sender between the third and
  the fourth request; the node of \<open>failing_env\<close> goes down at \<^verbatim>\<open>buildTransaction\<close>.
\<close>

definition demo_htlc :: htlc where
  "demo_htlc =
     \<lparr>htlc_agreements =
        \<lparr>secret_hash = ''3a26da82ead15a80533a02696656b14b5dbfd84eb14790f2e1be5e9e45820eeb'',
         recipient_address = ''0xd77E0d2Eef905cfB39c3C4b952Ed278d58f96E1f'',
         sender_address = ''0x69e04fe16c9A6A83076B3c2dc4b4Bc21b5d9A20C'',
         endtime = 1624522984\<rparr>,
      contract_address = ''0xeaEaC81da5E386E8Ca4De1e64d40a10E468A5b40'',
      abi = ''[]''\<rparr>"

definition sender_xprivate_key :: string where
  "sender_xprivate_key = ''xprv9s21ZrQH143K3XihXQBN8Uar2WBtrjSzK2oRDEGQ25pA2kKAADoQXaiiVXht163ZTrdtTXfM4GqNRE9gWQHky25BpvBQuuhNCM3SKwWTPNJ''"

definition other_xprivate_key :: string where
  "other_xprivate_key = ''xprv9s21ZrQH143K3Y3pdbkbjreZQ9RVmqTLhRgf86uZyCJk2ou36YdUJt5frjwihGWmV1fQEDioiGZXWXUbHLy3kQf5xmhvhp8dZ2tfn6tgGUj''"

definition demo_path :: string where
  "demo_path = ''m/44/550/0/0/0''"

definition demo_key_address :: "string \<Rightarrow> string" where
  "demo_key_address key =
     (if key = sender_xprivate_key @ demo_path then ''0x69e04fe16c9A6A83076B3c2dc4b4Bc21b5d9A20C''
      else ''0xd77E0d2Eef905cfB39c3C4b952Ed278d58f96E1f'')"

definition demo_sign_transaction :: "transaction_dict option \<Rightarrow> string \<Rightarrow> error + signed_transaction" where
  "demo_sign_transaction tx key =
     (case tx of
        None \<Rightarrow> Inl (TypeError ''transaction_dict must be dict-like, got None'')
      | Some t \<Rightarrow>
          if tx_from t \<noteq> demo_key_address key
          then Inl (TypeError (''from field must match key's '' @ demo_key_address key
                      @ '', but it was '' @ tx_from t))
          else Inr \<lparr>st_rawTransaction = key @ tx_data t, st_hash = key,
                    st_r = int (length key), st_s = tx_value t + nonce t, st_v = 2709\<rparr>)"

definition demo_env :: env where
  "demo_env =
     \<lparr>is_network = (\<lambda>n. n \<in> set [''mainnet'', ''testnet'']),
      is_address = (\<lambda>a. take 3 a = ''xdc'' \<and> length a = 43),
      to_checksum_address = (\<lambda>a prefix. prefix @ drop 3 a),
      amount_unit_converter = (\<lambda>amount unit. Inl (OtherError ''NotImplementedError'' unit)),
      clean_transaction_raw = strip_padding,
      config_network = ''mainnet'',
      config_BIP44 = (\<lambda>account change address.
         ''m/44/550/'' @ repr_int account @ ''/'' @ repr_int change @ ''/'' @ repr_int address),
      web3_get_transaction_count = (\<lambda>t a. Inr 1),
      web3_gasPrice = (\<lambda>t. Inr 20000000000),
      web3_estimateGas = (\<lambda>t f p. Inr 138448),
      web3_fill_transaction = (\<lambda>t f b.
         Inr \<lparr>f_chainId = 1337, f_to = ''0xeaEaC81da5E386E8Ca4De1e64d40a10E468A5b40'',
              f_data = ''0xf4fd3062''\<rparr>),
      web3_get_transaction_receipt = (\<lambda>t h. Inr \<lparr>logs = [''log_fund'']\<rparr>),
      web3_processLog = (\<lambda>c l. Inr ''0x1a2b''),
      HTLC_from_transaction = (\<lambda>t h n. Inr demo_htlc),
      Wallet_from_path = (\<lambda>n x p. Inr (Wallet (x @ p))),
      sign_transaction = demo_sign_transaction\<rparr>"

definition racing_env :: env where
  "racing_env = demo_env\<lparr>web3_get_transaction_count := (\<lambda>t a. Inr (if t < 3 then 1 else 2))\<rparr>"

definition demo_fresh :: transaction where
  "demo_fresh = \<lparr>self_network = ''mainnet'', self_transaction = None, self_signature = None,
                  self_type = None, self_fee = None\<rparr>"

definition demo_fund_args :: build_args where
  "demo_fund_args = FundArgs ''xdc69e04fe16c9A6A83076B3c2dc4b4Bc21b5d9A20C'' (HTLCInstance demo_htlc) 3000000000000000000"

definition demo_transaction :: transaction_dict where
  "demo_transaction =
     \<lparr>chainId = 1337, tx_from = ''0x69e04fe16c9A6A83076B3c2dc4b4Bc21b5d9A20C'',
      tx_value = 3000000000000000000, nonce = 1, gas = 138448, gasPrice = 20000000000,
      tx_to = ''0xeaEaC81da5E386E8Ca4De1e64d40a10E468A5b40'', tx_data = ''0xf4fd3062''\<rparr>"

definition demo_built :: transaction where
  "demo_built = demo_fresh\<lparr>self_fee := Some 138448, self_transaction := Some demo_transaction,
                            self_type := Some ''xinfin_fund_unsigned''\<rparr>"

text \<open>The instances of class \<open>r\<close> on which no \<^verbatim>\<open>build_transaction\<close> call has
  succeeded yet: fresh from the constructor, after a \<^verbatim>\<open>build_transaction\<close> call that
  raised, or after any \<^verbatim>\<open>sign\<close> call.\<close>

inductive never_built :: "env \<Rightarrow> role \<Rightarrow> transaction \<Rightarrow> bool" for e :: env and r :: role where
  fresh: "Transaction_init e network = Inr self \<Longrightarrow> never_built e r self"
| failed_build:
    "never_built e r self \<Longrightarrow> args_role a = r \<Longrightarrow>
     build_transaction e self w a = (Inl x, self', w') \<Longrightarrow> never_built e r self'"
| sign_called:
    "never_built e r self \<Longrightarrow> sign e r self solver = (res, self') \<Longrightarrow> never_built e r self'"

definition failing_env :: env where
  "failing_env =
     demo_env\<lparr>web3_fill_transaction := (\<lambda>t f b. Inl (OtherError ''ConnectionError'' ''node down''))\<rparr>"

text \<open>The solver class a role's \<^verbatim>\<open>sign\<close> accepts, and the type it stores.\<close>

fun role_solver :: "role \<Rightarrow> string \<Rightarrow> string \<Rightarrow> solver" where
  "role_solver Fund xprivate_key path = FundSolver xprivate_key path"
| "role_solver Withdraw xprivate_key path = WithdrawSolver xprivate_key path"
| "role_solver Refund xprivate_key path = RefundSolver xprivate_key path"

fun signed_type :: "role \<Rightarrow> string" where
  "signed_type Fund = ''xinfin_fund_signed''"
| "signed_type Withdraw = ''xinfin_withdraw_signed''"
| "signed_type Refund = ''xinfin_refund_signed''"

definition demo_fund_function :: contract_function where
  "demo_fund_function =
     FundFunction (Contract (contract_address demo_htlc) (abi demo_htlc))
       (secret_hash (htlc_agreements demo_htlc)) (recipient_address (htlc_agreements demo_htlc))
       (sender_address (htlc_agreements demo_htlc)) (endtime (htlc_agreements demo_htlc))"

definition demo_estimate_params :: estimate_params where
  "demo_estimate_params =
     \<lparr>e_from = ''0x69e04fe16c9A6A83076B3c2dc4b4Bc21b5d9A20C'', e_value = 3000000000000000000,
      e_nonce = 1, e_gasPrice = 20000000000\<rparr>"

definition demo_build_params :: "int \<Rightarrow> build_params" where
  "demo_build_params n =
     \<lparr>b_from = ''0x69e04fe16c9A6A83076B3c2dc4b4Bc21b5d9A20C'', b_value = 3000000000000000000,
      b_nonce = n, b_gas = 138448, b_gasPrice = 20000000000\<rparr>"

definition demo_world :: "int \<Rightarrow> world" where
  "demo_world n =
     [Get_transaction_count ''0x69e04fe16c9A6A83076B3c2dc4b4Bc21b5d9A20C'', GasPrice,
      EstimateGas demo_fund_function demo_estimate_params,
      Get_transaction_count ''0x69e04fe16c9A6A83076B3c2dc4b4Bc21b5d9A20C'', GasPrice,
      BuildTransaction demo_fund_function (demo_build_params n)]"

definition demo_signed_by :: "string \<Rightarrow> transaction" where
  "demo_signed_by xprivate_key =
     demo_built\<lparr>self_signature :=
                  Some (signature_of \<lparr>st_rawTransaction = xprivate_key @ demo_path @ ''0xf4fd3062'',
                          st_hash = xprivate_key @ demo_path,
                          st_r = 125, st_s = 3000000000000000001, st_v = 2709\<rparr>),
                self_type := Some ''xinfin_fund_signed''\<rparr>"

definition demo_fund_args_again :: build_args where
  "demo_fund_args_again =
     FundArgs ''xdc69e04fe16c9A6A83076B3c2dc4b4Bc21b5d9A20C'' (HTLCInstance demo_htlc)
       5000000000000000000"

definition demo_rebuilt :: transaction where
  "demo_rebuilt =
     (demo_signed_by sender_xprivate_key)
       \<lparr>self_fee := Some 138448,
        self_transaction := Some (demo_transaction\<lparr>tx_value := 5000000000000000000\<rparr>),
        self_type := Some ''xinfin_fund_unsigned''\<rparr>"

definition demo_resigned :: transaction where
  "demo_resigned =
     demo_rebuilt\<lparr>self_signature :=
                    Some (signature_of
                      \<lparr>st_rawTransaction = sender_xprivate_key @ demo_path @ ''0xf4fd3062'',
                       st_hash = sender_xprivate_key @ demo_path,
                       st_r = 125, st_s = 5000000000000000001, st_v = 2709\<rparr>),
                  self_type := Some ''xinfin_fund_signed''\<rparr>"

definition racing_built :: transaction where
  "racing_built = demo_fresh\<lparr>self_fee := Some 138448,
                              self_transaction := Some (demo_transaction\<lparr>nonce := 2\<rparr>),
                              self_type := Some ''xinfin_fund_unsigned''\<rparr>"

fun b64body :: "bytes \<Rightarrow> string" where
  "b64body [] = []"
| "b64body [a] = [b64 (of_char a div 4), b64 (of_char a mod 4 * 16)]"
| "b64body [a, b] =
     [b64 (of_char a div 4), b64 (of_char a mod 4 * 16 + of_char b div 16),
      b64 (of_char b mod 16 * 4)]"
| "b64body (a # b # c # bs) =
     [b64 (of_char a div 4), b64 (of_char a mod 4 * 16 + of_char b div 16),
      b64 (of_char b mod 16 * 4 + of_char c div 64), b64 (of_char c mod 64)] @ b64body bs"

definition ok_rest :: "string \<Rightarrow> bool" where
  "ok_rest rest \<longleftrightarrow> (case rest of [] \<Rightarrow> True | c # _ \<Rightarrow> \<not> is_digit c)"

fun utf8_decode :: "bytes \<Rightarrow> string option" where
  "utf8_decode [] = Some []"
| "utf8_decode [c] = (if (of_char c :: nat) < 128 then Some [c] else None)"
| "utf8_decode (c # d # bs) =
     (if (of_char c :: nat) < 128 then
        (case utf8_decode (d # bs) of None \<Rightarrow> None | Some s \<Rightarrow> Some (c # s))
      else if (c = CHR 0xC2 \<or> c = CHR 0xC3) \<and> 128 \<le> (of_char d :: nat) \<and> (of_char d :: nat) < 192 then
        (case utf8_decode bs of
           None \<Rightarrow> None
         | Some s \<Rightarrow> Some (char_of ((of_char c - 192) * 64 + (of_char d - 128) :: nat) # s))
      else None)"

definition invalid_transaction_raw :: error where
  "invalid_transaction_raw = ValueError ''invalid transaction raw''"

text \<open>
  Modelled from the spec: \<^verbatim>\<open>decode_transaction_raw\<close> of the provider's \<^verbatim>\<open>utils\<close>
  module, which is not among the sources. The spec describes the raw string as the encoded
  JSON object with the keys \<^verbatim>\<open>fee\<close>, \<^verbatim>\<open>transaction\<close>, \<^verbatim>\<open>signature\<close>,
  \<^verbatim>\<open>network\<close> and \<^verbatim>\<open>type\<close>, and says that decoding an invalid blob fails with
  "invalid transaction raw": the text is base64-decoded, read as JSON, and the five keys
  are looked up.
\<close>

definition decode_transaction_raw :: "string \<Rightarrow> error + json" where
  "decode_transaction_raw transaction_raw =
     (case b64decode transaction_raw of
        None \<Rightarrow> Inl invalid_transaction_raw
      | Some decoded \<Rightarrow>
     (case utf8_decode decoded of
        None \<Rightarrow> Inl invalid_transaction_raw
      | Some text \<Rightarrow>
     (case json_loads text of
        Some (JObj loaded) \<Rightarrow>
          (case (map_of loaded ''fee'', map_of loaded ''transaction'', map_of loaded ''signature'',
                 map_of loaded ''network'', map_of loaded ''type'') of
             (Some fee, Some tx, Some sg, Some network, Some ty) \<Rightarrow>
               Inr (JObj [(''fee'', fee), (''transaction'', tx), (''signature'', sg),
                          (''network'', network), (''type'', ty)])
           | _ \<Rightarrow> Inl invalid_transaction_raw)
      | _ \<Rightarrow> Inl invalid_transaction_raw)))"

text \<open>
  \<^verbatim>\<open>clean_transaction_raw\<close> is imported from \<^verbatim>\<open>swap.utils\<close>, which is not among
  the sources, and stays a parameter. The docstring of \<^verbatim>\<open>transaction_raw\<close> shows a raw
  string of 787 characters, that is, base64 text without its trailing \<^verbatim>\<open>=\<close>. What is
  assumed of the function is that it changes a text at most in its trailing \<^verbatim>\<open>=\<close>
  characters.
\<close>

definition only_padding :: "(string \<Rightarrow> string) \<Rightarrow> bool" where
  "only_padding clean \<longleftrightarrow> (\<forall>s. strip_padding (clean s) = strip_padding s)"

text \<open>
  Modelled from the spec: the \<^verbatim>\<open>Signature\<close> facade (the provider's \<^verbatim>\<open>signature\<close>
  module, not among the sources; \<^verbatim>\<open>cryptocurrencies/vapor/refund.py\<close> calls the
  \<^verbatim>\<open>RefundSignature\<close> of another provider). By the spec it accepts an unsigned raw
  string and a solver, decodes the raw string, reconstructs an equivalent in-memory unsigned
  transaction and runs the signing procedure of \<^verbatim>\<open>sign\<close>; the type tag names the role,
  and a tag that is not recognised fails with "unsupported transaction type".
\<close>

fun unsigned_type :: "role \<Rightarrow> string" where
  "unsigned_type Fund = ''xinfin_fund_unsigned''"
| "unsigned_type Withdraw = ''xinfin_withdraw_unsigned''"
| "unsigned_type Refund = ''xinfin_refund_unsigned''"

definition unsigned_role :: "string \<Rightarrow> role option" where
  "unsigned_role ty =
     (if ty = ''xinfin_fund_unsigned'' then Some Fund
      else if ty = ''xinfin_withdraw_unsigned'' then Some Withdraw
      else if ty = ''xinfin_refund_unsigned'' then Some Refund
      else None)"

definition transaction_of_json :: "json \<Rightarrow> transaction_dict option" where
  "transaction_of_json j =
     (case j of
        JObj kvs \<Rightarrow>
          (case (map_of kvs ''chainId'', map_of kvs ''from'', map_of kvs ''value'',
                 map_of kvs ''nonce'', map_of kvs ''gas'', map_of kvs ''gasPrice'',
                 map_of kvs ''to'', map_of kvs ''data'') of
             (Some (JInt c), Some (JStr f), Some (JInt v), Some (JInt n), Some (JInt g),
              Some (JInt p), Some (JStr t), Some (JStr d)) \<Rightarrow>
               Some \<lparr>chainId = c, tx_from = f, tx_value = v, nonce = n, gas = g, gasPrice = p,
                     tx_to = t, tx_data = d\<rparr>
           | _ \<Rightarrow> None)
      | _ \<Rightarrow> None)"

definition fee_of_json :: "json \<Rightarrow> int option option" where
  "fee_of_json j = (case j of JNull \<Rightarrow> Some None | JInt f \<Rightarrow> Some (Some f) | _ \<Rightarrow> None)"

definition Signature_sign :: "env \<Rightarrow> string \<Rightarrow> solver \<Rightarrow> error + transaction" where
  "Signature_sign e transaction_raw solver =
     (case decode_transaction_raw transaction_raw of
        Inl x \<Rightarrow> Inl x
      | Inr decoded \<Rightarrow>
     (case decoded of
        JObj loaded \<Rightarrow>
          (case (map_of loaded ''fee'', map_of loaded ''transaction'', map_of loaded ''network'',
                 map_of loaded ''type'') of
             (Some fee, Some tx, Some (JStr network), Some (JStr ty)) \<Rightarrow>
               (case unsigned_role ty of
                  None \<Rightarrow> Inl (ValueError ''unsupported transaction type'')
                | Some r \<Rightarrow>
               (case (fee_of_json fee, transaction_of_json tx) of
                  (Some f, Some t) \<Rightarrow>
                    (case sign e r \<lparr>self_network = network, self_transaction = Some t,
                                     self_signature = None, self_type = Some ty, self_fee = f\<rparr>
                            solver of
                       (Inl x, _) \<Rightarrow> Inl x
                     | (Inr _, signed) \<Rightarrow> Inr signed)
                | _ \<Rightarrow> Inl invalid_transaction_raw))
           | _ \<Rightarrow> Inl invalid_transaction_raw)
      | _ \<Rightarrow> Inl invalid_transaction_raw))"

definition ascii :: "string \<Rightarrow> bool" where
  "ascii s \<longleftrightarrow> (\<forall>c \<in> set s. (of_char c :: nat) < 128)"

text \<open>The raw string of the example's unsigned fund transaction.\<close>

definition demo_raw :: string where
  "demo_raw = ''eyJmZWUiOiAxMzg0NDgsICJ0cmFuc2FjdGlvbiI6IHsiY2hhaW5JZCI6IDEzMzcsICJmcm9tIjogIjB4NjllMDRmZTE2YzlBNkE4MzA3NkIzYzJkYzRiNEJjMjFiNWQ5QTIwQyIsICJ2YWx1ZSI6IDMwMDAwMDAwMDAwMDAwMDAwMDAsICJub25jZSI6IDEsICJnYXMiOiAxMzg0NDgsICJnYXNQcmljZSI6IDIwMDAwMDAwMDAwLCAidG8iOiAiMHhlYUVhQzgxZGE1RTM4NkU4Q2E0RGUxZTY0ZDQwYTEwRTQ2OEE1YjQwIiwgImRhdGEiOiAiMHhmNGZkMzA2MiJ9LCAic2lnbmF0dXJlIjogbnVsbCwgIm5ldHdvcmsiOiAibWFpbm5ldCIsICJ0eXBlIjogInhpbmZpbl9mdW5kX3Vuc2lnbmVkIn0''"

section \<open>Properties\<close>

lemma estimate_then_build_success:
  assumes "estimate_then_build e self w f address amount ty = (Inr u, self', w')"
  shows "\<exists>n1 g1 fee n2 g2 fl.
      web3_get_transaction_count e (length w) (to_checksum_address e address ''0x'') = Inr n1 \<and>
      web3_gasPrice e (length w + 1) = Inr g1 \<and>
      web3_estimateGas e (length w + 2) f
        \<lparr>e_from = to_checksum_address e address ''0x'', e_value = amount, e_nonce = n1,
         e_gasPrice = g1\<rparr> = Inr fee \<and>
      web3_get_transaction_count e (length w + 3) (to_checksum_address e address ''0x'') = Inr n2 \<and>
      web3_gasPrice e (length w + 4) = Inr g2 \<and>
      web3_fill_transaction e (length w + 5) f
        \<lparr>b_from = to_checksum_address e address ''0x'', b_value = amount, b_nonce = n2,
         b_gas = fee, b_gasPrice = g2\<rparr> = Inr fl \<and>
      w' = w @ [Get_transaction_count (to_checksum_address e address ''0x''), GasPrice,
                EstimateGas f \<lparr>e_from = to_checksum_address e address ''0x'', e_value = amount,
                  e_nonce = n1, e_gasPrice = g1\<rparr>,
                Get_transaction_count (to_checksum_address e address ''0x''), GasPrice,
                BuildTransaction f \<lparr>b_from = to_checksum_address e address ''0x'',
                  b_value = amount, b_nonce = n2, b_gas = fee, b_gasPrice = g2\<rparr>] \<and>
      self' = self\<lparr>self_fee := Some fee,
                   self_transaction := Some \<lparr>chainId = f_chainId fl,
                     tx_from = to_checksum_address e address ''0x'',
                     tx_value = amount, nonce = n2, gas = fee,
                     gasPrice = g2, tx_to = f_to fl, tx_data = f_data fl\<rparr>,
                   self_type := Some ty\<rparr>"
  using assms
  unfolding estimate_then_build_def rpc_def buildTransaction_def Let_def
  by (auto split: sum.splits prod.splits simp: eval_nat_numeral)

lemma estimate_then_build_failure:
  assumes "estimate_then_build e self w f address amount ty = (Inl x, self', w')"
  shows "self_transaction self' = self_transaction self \<and>
         self_signature self' = self_signature self \<and>
         self_type self' = self_type self \<and> self_network self' = self_network self"
  using assms
  unfolding estimate_then_build_def rpc_def Let_def
  by (auto split: sum.splits prod.splits)

lemma estimate_then_build_keeps:
  assumes "estimate_then_build e self w f address amount ty = (res, self', w')"
  shows "self_signature self' = self_signature self \<and> self_network self' = self_network self"
  using assms
  unfolding estimate_then_build_def rpc_def Let_def
  by (auto split: sum.splits prod.splits)

lemma demo_init: "Transaction_init demo_env ''mainnet'' = Inr demo_fresh"
  by (simp add: Transaction_init_def demo_env_def demo_fresh_def)

lemma build_transaction_failure:
  assumes "build_transaction e self w a = (Inl x, self', w')"
  shows "self_transaction self' = self_transaction self"
proof (cases a)
  case (FundArgs address h amount)
  with assms show ?thesis
    by (auto simp: FundTransaction_build_transaction_def Let_def
        split: htlc_arg.splits if_splits dest: estimate_then_build_failure)
next
  case (WithdrawArgs th address sk hth)
  with assms show ?thesis
    by (auto simp: WithdrawTransaction_build_transaction_def
        split: if_splits prod.splits sum.splits dest: estimate_then_build_failure)
next
  case (RefundArgs th address hth)
  with assms show ?thesis
    by (auto simp: RefundTransaction_build_transaction_def
        split: if_splits prod.splits sum.splits dest: estimate_then_build_failure)
qed

lemma build_transaction_success:
  assumes "build_transaction e self w a = (Inr u, self', w')"
  shows "\<exists>w0 f address amount ty.
           estimate_then_build e self w0 f address amount ty = (Inr u, self', w')"
proof (cases a)
  case (FundArgs address h amount)
  with assms show ?thesis
    by (fastforce simp: FundTransaction_build_transaction_def Let_def
        split: htlc_arg.splits if_splits)
next
  case (WithdrawArgs th address sk hth)
  with assms show ?thesis
    by (fastforce simp: WithdrawTransaction_build_transaction_def
        split: if_splits prod.splits sum.splits)
next
  case (RefundArgs th address hth)
  with assms show ?thesis
    by (fastforce simp: RefundTransaction_build_transaction_def
        split: if_splits prod.splits sum.splits)
qed

lemma build_transaction_keeps:
  assumes "build_transaction e self w a = (res, self', w')"
  shows "self_signature self' = self_signature self \<and> self_network self' = self_network self"
proof (cases a)
  case (FundArgs address h amount)
  with assms show ?thesis
    by (auto simp: FundTransaction_build_transaction_def Let_def
        split: htlc_arg.splits if_splits dest: estimate_then_build_keeps)
next
  case (WithdrawArgs th address sk hth)
  with assms show ?thesis
    by (auto simp: WithdrawTransaction_build_transaction_def
        split: if_splits prod.splits sum.splits dest: estimate_then_build_keeps)
next
  case (RefundArgs th address hth)
  with assms show ?thesis
    by (auto simp: RefundTransaction_build_transaction_def
        split: if_splits prod.splits sum.splits dest: estimate_then_build_keeps)
qed

lemma sign_with_keeps:
  "sign_with e self x p ty = (res, self') \<Longrightarrow>
     self_transaction self' = self_transaction self \<and> self_fee self' = self_fee self \<and>
     self_network self' = self_network self"
  by (auto simp: sign_with_def split: sum.splits)

lemma sign_keeps:
  assumes "sign e r self solver = (res, self')"
  shows "self_transaction self' = self_transaction self \<and> self_fee self' = self_fee self \<and>
         self_network self' = self_network self"
  using assms
  by (cases r; cases solver)
     (auto simp: FundTransaction_sign_def WithdrawTransaction_sign_def RefundTransaction_sign_def
        dest: sign_with_keeps)

lemma never_built_None: "never_built e r self \<Longrightarrow> self_transaction self = None"
proof (induction rule: never_built.induct)
  case (fresh network self)
  then show ?case by (auto simp: Transaction_init_def split: if_splits)
next
  case (failed_build self a w x self' w')
  then show ?case by (simp add: build_transaction_failure)
next
  case (sign_called self solver res self')
  then show ?case by (simp add: sign_keeps)
qed

text \<open>
  \<^bold>\<open>C4.\<close> For every role and every accessor among \<^verbatim>\<open>fee\<close>, \<^verbatim>\<open>hash\<close>, \<^verbatim>\<open>json\<close>,
  \<^verbatim>\<open>raw\<close>, \<^verbatim>\<open>type\<close>, \<^verbatim>\<open>signature\<close> and \<^verbatim>\<open>transaction_raw\<close>: on an instance
  on which \<^verbatim>\<open>build_transaction\<close> has not succeeded, the accessor raises the
  \<^verbatim>\<open>ValueError\<close> "Transaction is none, build transaction first.". This holds for a fresh
  instance, after a build that raised (also one that had already stored the fee) and after
  any \<^verbatim>\<open>sign\<close> call.
\<close>

theorem accessors_before_build:
  assumes "never_built e r self"
  shows "Transaction_fee e self unit = Inl (ValueError ''Transaction is none, build transaction first.'')
       \<and> Transaction_hash self = Inl (ValueError ''Transaction is none, build transaction first.'')
       \<and> Transaction_json self = Inl (ValueError ''Transaction is none, build transaction first.'')
       \<and> Transaction_raw self = Inl (ValueError ''Transaction is none, build transaction first.'')
       \<and> Transaction_type self = Inl (ValueError ''Transaction is none, build transaction first.'')
       \<and> Transaction_signature self = Inl (ValueError ''Transaction is none, build transaction first.'')
       \<and> Transaction_transaction_raw e self = Inl (ValueError ''Transaction is none, build transaction first.'')"
  using never_built_None [OF assms]
  by (simp add: Transaction_fee_def Transaction_hash_def Transaction_json_def Transaction_raw_def
      Transaction_type_def Transaction_signature_def Transaction_transaction_raw_def not_built_def)

lemma failing_init: "Transaction_init failing_env ''mainnet'' = Inr demo_fresh"
  by (simp add: Transaction_init_def failing_env_def demo_env_def demo_fresh_def)

lemma failing_build:
  "\<exists>w. build_transaction failing_env demo_fresh [] demo_fund_args =
         (Inl (OtherError ''ConnectionError'' ''node down''), demo_fresh\<lparr>self_fee := Some 138448\<rparr>, w)"
  by (simp add: demo_fund_args_def FundTransaction_build_transaction_def estimate_then_build_def
      rpc_def buildTransaction_def failing_env_def demo_env_def demo_htlc_def
      demo_fresh_def Let_def)

text \<open>
  C4 at an instance whose build raised at \<^verbatim>\<open>buildTransaction\<close>, after the fee had been
  stored.
\<close>

theorem accessors_before_build_witness:
  "never_built failing_env Fund (demo_fresh\<lparr>self_fee := Some 138448\<rparr>)
   \<and> Transaction_fee failing_env (demo_fresh\<lparr>self_fee := Some 138448\<rparr>) ''Wei''
       = Inl (ValueError ''Transaction is none, build transaction first.'')
   \<and> Transaction_hash (demo_fresh\<lparr>self_fee := Some 138448\<rparr>)
       = Inl (ValueError ''Transaction is none, build transaction first.'')
   \<and> Transaction_raw (demo_fresh\<lparr>self_fee := Some 138448\<rparr>)
       = Inl (ValueError ''Transaction is none, build transaction first.'')"
proof -
  have a: "never_built failing_env Fund demo_fresh"
    by (rule never_built.fresh [OF failing_init])
  obtain w where "build_transaction failing_env demo_fresh [] demo_fund_args =
         (Inl (OtherError ''ConnectionError'' ''node down''), demo_fresh\<lparr>self_fee := Some 138448\<rparr>, w)"
    using failing_build by blast
  then have b: "never_built failing_env Fund (demo_fresh\<lparr>self_fee := Some 138448\<rparr>)"
    using never_built.failed_build [OF a, of demo_fund_args] by (simp add: demo_fund_args_def)
  show ?thesis
    using b accessors_before_build [OF b, of "''Wei''"] by simp
qed

lemma sign_role_solver:
  "sign e r self (role_solver r x p) = sign_with e self x p (signed_type r)"
  by (cases r) (simp_all add: FundTransaction_sign_def WithdrawTransaction_sign_def
      RefundTransaction_sign_def)

lemma solver_role_eq: "solver_role solver = Some r \<longleftrightarrow> (\<exists>x p. solver = role_solver r x p)"
  by (cases solver; cases r) auto

text \<open>
  \<^bold>\<open>C6.\<close> For every role, \<^verbatim>\<open>sign\<close> called with anything but a solver of that role (a
  solver of another role, or an object of any other class) raises a \<^verbatim>\<open>TypeError\<close>
  whose message names the expected solver class and the class of the object given, and
  leaves the instance as it was.
\<close>

theorem sign_wrong_solver:
  assumes "solver_role solver \<noteq> Some r"
  shows "sign e r self solver =
           (Inl (TypeError (''Solver must be XinFin '' @ solver_class r @ '', not ''
                   @ type_name solver @ '' type.'')), self)"
  using assms
  by (cases r; cases solver)
     (simp_all add: FundTransaction_sign_def WithdrawTransaction_sign_def
        RefundTransaction_sign_def solver_type_error_def)

text \<open>
  C6 for a \<^verbatim>\<open>RefundSolver\<close> given to \<^verbatim>\<open>WithdrawTransaction.sign\<close> and a string given
  to \<^verbatim>\<open>FundTransaction.sign\<close>.
\<close>

theorem sign_wrong_solver_witness:
  "solver_role (RefundSolver sender_xprivate_key demo_path) \<noteq> Some Withdraw
   \<and> sign demo_env Withdraw demo_built (RefundSolver sender_xprivate_key demo_path) =
       (Inl (TypeError ''Solver must be XinFin WithdrawSolver, not RefundSolver type.''), demo_built)
   \<and> sign demo_env Fund demo_built (OtherObject ''str'') =
       (Inl (TypeError ''Solver must be XinFin FundSolver, not str type.''), demo_built)"
  using sign_wrong_solver [of "RefundSolver sender_xprivate_key demo_path" Withdraw demo_env demo_built]
        sign_wrong_solver [of "OtherObject ''str''" Fund demo_env demo_built]
  by simp

text \<open>
  \<^bold>\<open>C3.\<close> The claim is that \<^verbatim>\<open>sign\<close> on an instance that was never built raises the
  "not built" \<^verbatim>\<open>ValueError\<close> rather than deriving a key and signing. The methods have
  no such test: with a solver of the right class, \<^verbatim>\<open>sign\<close> on an unbuilt instance
  solves the wallet and hands \<^verbatim>\<open>None\<close> to \<^verbatim>\<open>sign_transaction\<close>, and its outcome is
  whatever these two collaborators make of it.
\<close>

theorem sign_before_build:
  assumes "self_transaction self = None"
  shows "sign e r self (role_solver r xprivate_key path) =
           (case solve e xprivate_key path of
              Inl x \<Rightarrow> (Inl x, self)
            | Inr wallet \<Rightarrow>
                (case sign_transaction e None (private_key wallet) of
                   Inl x \<Rightarrow> (Inl x, self)
                 | Inr signed \<Rightarrow>
                     (Inr (), self\<lparr>self_signature := Some (signature_of signed),
                                   self_type := Some (signed_type r)\<rparr>)))"
  using assms by (simp add: sign_role_solver sign_with_def split: sum.splits)

text \<open>
  C3 at a fresh \<^verbatim>\<open>FundTransaction\<close>: the error is the \<^verbatim>\<open>TypeError\<close> of the signing
  library, raised after the key was derived.
\<close>

theorem sign_before_build_witness:
  "self_transaction demo_fresh = None
   \<and> sign demo_env Fund demo_fresh (FundSolver sender_xprivate_key demo_path) =
       (Inl (TypeError ''transaction_dict must be dict-like, got None''), demo_fresh)"
  using sign_before_build [of demo_fresh demo_env Fund sender_xprivate_key demo_path]
  by (simp add: demo_fresh_def solve_def demo_env_def demo_sign_transaction_def)

lemma sign_failure:
  assumes "sign e r self solver = (Inl x, self'')"
  shows "self'' = self"
proof (cases "solver_role solver = Some r")
  case True
  then obtain xp p where "solver = role_solver r xp p" by (auto simp: solver_role_eq)
  with assms show ?thesis
    by (auto simp: sign_role_solver sign_with_def split: sum.splits)
next
  case False
  with assms show ?thesis
    by (cases r; cases solver)
       (simp_all add: FundTransaction_sign_def WithdrawTransaction_sign_def
          RefundTransaction_sign_def)
qed

lemma signature_written_only_by_sign_aux:
  assumes "sign e r self solver = (Inr u, self'')"
  shows "\<exists>xprivate_key path wallet signed.
           solver = role_solver r xprivate_key path \<and>
           solve e xprivate_key path = Inr wallet \<and>
           sign_transaction e (self_transaction self) (private_key wallet) = Inr signed \<and>
           self_signature self'' = Some (signature_of signed)"
proof -
  have "solver_role solver = Some r"
  proof (rule ccontr)
    assume "solver_role solver \<noteq> Some r"
    with assms show False
      by (cases r; cases solver)
         (simp_all add: FundTransaction_sign_def WithdrawTransaction_sign_def
            RefundTransaction_sign_def)
  qed
  then obtain xp p where s: "solver = role_solver r xp p" by (auto simp: solver_role_eq)
  with assms show ?thesis
    by (fastforce simp: sign_role_solver sign_with_def split: sum.splits)
qed

text \<open>
  \<^bold>\<open>C5\<close>, amended. \<^verbatim>\<open>build_transaction\<close>, whether it returns or raises, leaves the stored
  signature unchanged; a \<^verbatim>\<open>sign\<close> call that raises leaves the whole instance unchanged;
  a \<^verbatim>\<open>sign\<close> call that returns stores the signature of the transaction stored at that
  moment under the key of the solver given, replacing any earlier one.
\<close>

theorem signature_written_only_by_sign:
  "(build_transaction e self w a = (res, self', w') \<longrightarrow> self_signature self' = self_signature self)
   \<and> (sign e r self solver = (Inl x, self'') \<longrightarrow> self'' = self)
   \<and> (sign e r self solver = (Inr u, self'') \<longrightarrow>
        (\<exists>xprivate_key path wallet signed.
           solver = role_solver r xprivate_key path \<and>
           solve e xprivate_key path = Inr wallet \<and>
           sign_transaction e (self_transaction self) (private_key wallet) = Inr signed \<and>
           self_signature self'' = Some (signature_of signed)))"
  using build_transaction_keeps [of e self w a res self' w']
        sign_failure [of e r self solver x self'']
        signature_written_only_by_sign_aux [of e r self solver u self'']
  by blast

lemma demo_build_world:
  "build_transaction demo_env demo_fresh [] demo_fund_args = (Inr (), demo_built, demo_world 1)"
  by (simp add: demo_fund_args_def FundTransaction_build_transaction_def estimate_then_build_def
      rpc_def buildTransaction_def demo_env_def demo_htlc_def demo_built_def demo_transaction_def
      demo_fresh_def Let_def demo_world_def demo_fund_function_def demo_estimate_params_def
      demo_build_params_def)

lemma demo_sign_built:
  "sign demo_env Fund demo_built (FundSolver sender_xprivate_key demo_path) =
     (Inr (), demo_signed_by sender_xprivate_key)"
  by (simp add: FundTransaction_sign_def sign_with_def solve_def demo_env_def
      demo_sign_transaction_def demo_key_address_def demo_built_def demo_fresh_def
      demo_transaction_def demo_signed_by_def sender_xprivate_key_def demo_path_def)

lemma demo_sign_other_key:
  "sign demo_env Fund demo_built (FundSolver other_xprivate_key demo_path) =
     (Inl (TypeError (''from field must match key's '' @ ''0xd77E0d2Eef905cfB39c3C4b952Ed278d58f96E1f''
             @ '', but it was '' @ ''0x69e04fe16c9A6A83076B3c2dc4b4Bc21b5d9A20C'')), demo_built)"
  by (simp add: FundTransaction_sign_def sign_with_def solve_def demo_env_def
      demo_sign_transaction_def demo_key_address_def demo_built_def demo_fresh_def
      demo_transaction_def sender_xprivate_key_def other_xprivate_key_def demo_path_def)

lemma demo_rebuild:
  "fst (build_transaction demo_env (demo_signed_by sender_xprivate_key) (demo_world 1)
          demo_fund_args_again) = Inr ()
   \<and> fst (snd (build_transaction demo_env (demo_signed_by sender_xprivate_key) (demo_world 1)
          demo_fund_args_again)) = demo_rebuilt"
  by (simp add: demo_fund_args_again_def FundTransaction_build_transaction_def
      estimate_then_build_def rpc_def buildTransaction_def demo_env_def demo_htlc_def
      demo_rebuilt_def demo_signed_by_def demo_built_def demo_transaction_def demo_fresh_def
      Let_def)

lemma demo_sign_rebuilt:
  "sign demo_env Fund demo_rebuilt (FundSolver sender_xprivate_key demo_path) =
     (Inr (), demo_resigned)"
  by (simp add: FundTransaction_sign_def sign_with_def solve_def demo_env_def
      demo_sign_transaction_def demo_key_address_def demo_rebuilt_def demo_resigned_def
      demo_signed_by_def demo_built_def demo_fresh_def demo_transaction_def
      sender_xprivate_key_def demo_path_def)

lemma demo_signatures_differ:
  "self_signature demo_rebuilt = self_signature (demo_signed_by sender_xprivate_key)
   \<and> self_signature demo_resigned \<noteq> self_signature (demo_signed_by sender_xprivate_key)"
proof -
  have "map_option sig_s (self_signature demo_resigned) = Some 5000000000000000001"
    by (simp add: demo_resigned_def signature_of_def)
  moreover have "map_option sig_s (self_signature (demo_signed_by sender_xprivate_key))
      = Some 3000000000000000001"
    by (simp add: demo_signed_by_def signature_of_def)
  ultimately have "self_signature demo_resigned \<noteq> self_signature (demo_signed_by sender_xprivate_key)"
  proof (intro notI)
    assume a: "map_option sig_s (self_signature demo_resigned) = Some 5000000000000000001"
      and b: "map_option sig_s (self_signature (demo_signed_by sender_xprivate_key))
                = Some 3000000000000000001"
      and e: "self_signature demo_resigned = self_signature (demo_signed_by sender_xprivate_key)"
    from a b have "Some (5000000000000000001 :: int) = Some 3000000000000000001"
      by (simp only: e)
    then show False by simp
  qed
  then show ?thesis
    by (simp add: demo_rebuilt_def)
qed

text \<open>
  \<^bold>\<open>C5\<close>, as stated, fails: after a successful \<^verbatim>\<open>sign\<close>, a second
  \<^verbatim>\<open>build_transaction\<close> on the same instance (here with another amount) keeps the
  stored signature, and a second \<^verbatim>\<open>sign\<close> with the same solver then succeeds and
  replaces it.
\<close>

theorem resign_counterexample:
  "build_transaction demo_env demo_fresh [] demo_fund_args = (Inr (), demo_built, demo_world 1)
   \<and> sign demo_env Fund demo_built (FundSolver sender_xprivate_key demo_path) =
       (Inr (), demo_signed_by sender_xprivate_key)
   \<and> fst (build_transaction demo_env (demo_signed_by sender_xprivate_key) (demo_world 1)
            demo_fund_args_again) = Inr ()
   \<and> fst (snd (build_transaction demo_env (demo_signed_by sender_xprivate_key) (demo_world 1)
            demo_fund_args_again)) = demo_rebuilt
   \<and> self_signature demo_rebuilt = self_signature (demo_signed_by sender_xprivate_key)
   \<and> sign demo_env Fund demo_rebuilt (FundSolver sender_xprivate_key demo_path) =
       (Inr (), demo_resigned)
   \<and> self_signature demo_resigned \<noteq> self_signature (demo_signed_by sender_xprivate_key)"
  using demo_build_world demo_sign_built demo_rebuild demo_sign_rebuilt demo_signatures_differ
  by (simp only: simp_thms)

text \<open>
  C5 (amended) on the example: build, a \<^verbatim>\<open>sign\<close> that raises because the key is
  not the sender's, a successful \<^verbatim>\<open>sign\<close>.
\<close>

theorem signature_written_only_by_sign_witness:
  "build_transaction demo_env demo_fresh [] demo_fund_args = (Inr (), demo_built, demo_world 1)
   \<and> self_signature demo_built = self_signature demo_fresh
   \<and> sign demo_env Fund demo_built (FundSolver other_xprivate_key demo_path) =
        (Inl (TypeError (''from field must match key's ''
                @ ''0xd77E0d2Eef905cfB39c3C4b952Ed278d58f96E1f''
                @ '', but it was '' @ ''0x69e04fe16c9A6A83076B3c2dc4b4Bc21b5d9A20C'')), demo_built)
   \<and> sign demo_env Fund demo_built (FundSolver sender_xprivate_key demo_path) =
        (Inr (), demo_signed_by sender_xprivate_key)
   \<and> (\<exists>wallet signed.
         solve demo_env sender_xprivate_key demo_path = Inr wallet \<and>
         sign_transaction demo_env (self_transaction demo_built) (private_key wallet) = Inr signed \<and>
         self_signature (demo_signed_by sender_xprivate_key) = Some (signature_of signed))"
proof -
  note A = signature_written_only_by_sign
            [where e = demo_env and self = demo_fresh and w = "[]" and a = demo_fund_args
               and res = "Inr ()" and self' = demo_built and w' = "demo_world 1",
             THEN conjunct1, THEN mp, OF demo_build_world]
  note B = signature_written_only_by_sign
            [where e = demo_env and self = demo_built and r = Fund and u = "()"
               and solver = "FundSolver sender_xprivate_key demo_path"
               and self'' = "demo_signed_by sender_xprivate_key",
             THEN conjunct2, THEN conjunct2, THEN mp, OF demo_sign_built]
  from B have "\<exists>wallet signed.
         solve demo_env sender_xprivate_key demo_path = Inr wallet \<and>
         sign_transaction demo_env (self_transaction demo_built) (private_key wallet) = Inr signed \<and>
         self_signature (demo_signed_by sender_xprivate_key) = Some (signature_of signed)"
    by auto
  then show ?thesis
    using demo_build_world A demo_sign_other_key demo_sign_built
    by (simp only: simp_thms)
qed

lemma racing_build:
  "build_transaction racing_env demo_fresh [] demo_fund_args = (Inr (), racing_built, demo_world 2)"
  by (simp add: demo_fund_args_def FundTransaction_build_transaction_def estimate_then_build_def
      rpc_def buildTransaction_def racing_env_def demo_env_def demo_htlc_def racing_built_def
      demo_transaction_def demo_fresh_def Let_def demo_world_def demo_fund_function_def
      demo_estimate_params_def demo_build_params_def)

text \<open>
  \<^bold>\<open>C7\<close>, as stated, fails: the builder asks the node for the transaction count twice, and
  when the count changes between the two requests the fee is estimated with nonce 1 and
  the transaction is assembled with nonce 2.
\<close>

theorem nonce_race_counterexample:
  "build_transaction racing_env demo_fresh [] demo_fund_args = (Inr (), racing_built, demo_world 2)
   \<and> demo_world 2 ! 2 = EstimateGas demo_fund_function demo_estimate_params
   \<and> e_nonce demo_estimate_params = 1
   \<and> map_option nonce (self_transaction racing_built) = Some 2"
  using racing_build
  by (simp add: demo_world_def demo_estimate_params_def racing_built_def demo_transaction_def)

text \<open>
  \<^bold>\<open>C7\<close>, amended. A \<^verbatim>\<open>build_transaction\<close> call of any role that succeeds ends with six
  requests: transaction count, gas price, \<^verbatim>\<open>estimateGas\<close>, transaction count, gas price,
  \<^verbatim>\<open>buildTransaction\<close>. The nonce of the estimate is the node's answer to the first
  count request, the nonce of the stored transaction is its answer to the second, both for
  the same checksum address; they are equal when the node gives the same answer twice.
\<close>

theorem build_nonces:
  assumes "build_transaction e self w a = (Inr u, self', w')"
  shows "\<exists>sender f p b tx.
           6 \<le> length w' \<and>
           drop (length w' - 6) w' =
             [Get_transaction_count sender, GasPrice, EstimateGas f p,
              Get_transaction_count sender, GasPrice, BuildTransaction f b] \<and>
           web3_get_transaction_count e (length w' - 6) sender = Inr (e_nonce p) \<and>
           web3_get_transaction_count e (length w' - 3) sender = Inr (b_nonce b) \<and>
           self_transaction self' = Some tx \<and> nonce tx = b_nonce b \<and>
           e_from p = sender \<and> tx_from tx = sender \<and>
           (web3_get_transaction_count e (length w' - 6) sender =
              web3_get_transaction_count e (length w' - 3) sender \<longrightarrow> e_nonce p = nonce tx)"
proof -
  obtain w0 f address amount ty where
    "estimate_then_build e self w0 f address amount ty = (Inr u, self', w')"
    using build_transaction_success [OF assms] by blast
  from estimate_then_build_success [OF this] obtain n1 g1 fee n2 g2 and fl :: filled where
    c1: "web3_get_transaction_count e (length w0) (to_checksum_address e address ''0x'') = Inr n1"
    and c2: "web3_get_transaction_count e (length w0 + 3) (to_checksum_address e address ''0x'') = Inr n2"
    and w': "w' = w0 @ [Get_transaction_count (to_checksum_address e address ''0x''), GasPrice,
                EstimateGas f \<lparr>e_from = to_checksum_address e address ''0x'', e_value = amount,
                  e_nonce = n1, e_gasPrice = g1\<rparr>,
                Get_transaction_count (to_checksum_address e address ''0x''), GasPrice,
                BuildTransaction f \<lparr>b_from = to_checksum_address e address ''0x'',
                  b_value = amount, b_nonce = n2, b_gas = fee, b_gasPrice = g2\<rparr>]"
    and s': "self' = self\<lparr>self_fee := Some fee,
                   self_transaction := Some \<lparr>chainId = f_chainId fl,
                     tx_from = to_checksum_address e address ''0x'',
                     tx_value = amount, nonce = n2, gas = fee,
                     gasPrice = g2, tx_to = f_to fl, tx_data = f_data fl\<rparr>,
                   self_type := Some ty\<rparr>"
    by blast
  have l: "length w' - 6 = length w0" "length w' - 3 = length w0 + 3" "6 \<le> length w'"
    using w' by simp_all
  show ?thesis
    apply (rule exI [of _ "to_checksum_address e address ''0x''"])
    apply (rule exI [of _ f])
    apply (rule exI [of _ "\<lparr>e_from = to_checksum_address e address ''0x'', e_value = amount,
                  e_nonce = n1, e_gasPrice = g1\<rparr>"])
    apply (rule exI [of _ "\<lparr>b_from = to_checksum_address e address ''0x'',
                  b_value = amount, b_nonce = n2, b_gas = fee, b_gasPrice = g2\<rparr>"])
    apply (rule exI [of _ "\<lparr>chainId = f_chainId fl,
                     tx_from = to_checksum_address e address ''0x'',
                     tx_value = amount, nonce = n2, gas = fee,
                     gasPrice = g2, tx_to = f_to fl, tx_data = f_data fl\<rparr>"])
    using c1 c2 l by (simp add: w' s' numeral_3_eq_3)
qed

text \<open>
  C7 (amended) on the example, whose node answers both count requests alike.
\<close>

theorem build_nonces_witness:
  "build_transaction demo_env demo_fresh [] demo_fund_args = (Inr (), demo_built, demo_world 1)
   \<and> (\<exists>sender f p b tx.
         drop (length (demo_world 1) - 6) (demo_world 1) =
           [Get_transaction_count sender, GasPrice, EstimateGas f p,
            Get_transaction_count sender, GasPrice, BuildTransaction f b] \<and>
         self_transaction demo_built = Some tx \<and> e_nonce p = nonce tx)"
proof -
  have "web3_get_transaction_count demo_env i s = web3_get_transaction_count demo_env j s" for i j s
    by (simp add: demo_env_def)
  then show ?thesis
    using build_nonces [OF demo_build_world] demo_build_world by metis
qed

text \<open>
  \<^bold>\<open>C8.\<close> \<^verbatim>\<open>FundTransaction.build_transaction\<close>, given an HTLC instance, raises
  \<^verbatim>\<open>AddressError\<close> when the address is malformed or when its checksum form differs
  from the agreement's sender address, leaving the instance and the node untouched; it
  returns only when both checks pass. (An \<^verbatim>\<open>htlc\<close> argument that is no HTLC instance is
  refused before the address is looked at.)
\<close>

theorem fund_build_address_checks:
  "(\<not> is_address e address \<or>
      to_checksum_address e address ''0x'' \<noteq> sender_address (htlc_agreements h) \<longrightarrow>
      (\<exists>message detail.
         FundTransaction_build_transaction e self w address (HTLCInstance h) amount =
           (Inl (AddressError message detail), self, w)))
   \<and> (fst (FundTransaction_build_transaction e self w address (HTLCInstance h) amount) = Inr () \<longrightarrow>
        is_address e address \<and>
        to_checksum_address e address ''0x'' = sender_address (htlc_agreements h))"
  by (auto simp: FundTransaction_build_transaction_def)

text \<open>
  C8 for a malformed address, for a well-formed address that is not the sender's, and for
  the sender's address.
\<close>

theorem fund_build_address_checks_witness:
  "\<not> is_address demo_env ''bad-string''
   \<and> FundTransaction_build_transaction demo_env demo_fresh [] ''bad-string''
        (HTLCInstance demo_htlc) 3000000000000000000 =
       (Inl (AddressError (''Invalid XinFin sender '' @ quote @ ''bad-string'' @ quote @ '' address.'')
               None), demo_fresh, [])
   \<and> is_address demo_env ''xdcd77E0d2Eef905cfB39c3C4b952Ed278d58f96E1f''
   \<and> to_checksum_address demo_env ''xdcd77E0d2Eef905cfB39c3C4b952Ed278d58f96E1f'' ''0x''
        \<noteq> sender_address (htlc_agreements demo_htlc)
   \<and> (\<exists>message detail.
        FundTransaction_build_transaction demo_env demo_fresh []
          ''xdcd77E0d2Eef905cfB39c3C4b952Ed278d58f96E1f'' (HTLCInstance demo_htlc)
          3000000000000000000 = (Inl (AddressError message detail), demo_fresh, []))
   \<and> fst (FundTransaction_build_transaction demo_env demo_fresh []
          ''xdc69e04fe16c9A6A83076B3c2dc4b4Bc21b5d9A20C'' (HTLCInstance demo_htlc)
          3000000000000000000) = Inr ()
   \<and> is_address demo_env ''xdc69e04fe16c9A6A83076B3c2dc4b4Bc21b5d9A20C''
   \<and> to_checksum_address demo_env ''xdc69e04fe16c9A6A83076B3c2dc4b4Bc21b5d9A20C'' ''0x''
        = sender_address (htlc_agreements demo_htlc)"
proof -
  have a: "\<not> is_address demo_env ''bad-string''"
    by (simp add: demo_env_def)
  have b: "is_address demo_env ''xdcd77E0d2Eef905cfB39c3C4b952Ed278d58f96E1f''"
    "to_checksum_address demo_env ''xdcd77E0d2Eef905cfB39c3C4b952Ed278d58f96E1f'' ''0x''
        \<noteq> sender_address (htlc_agreements demo_htlc)"
    by (simp_all add: demo_env_def demo_htlc_def)
  have c: "fst (FundTransaction_build_transaction demo_env demo_fresh []
          ''xdc69e04fe16c9A6A83076B3c2dc4b4Bc21b5d9A20C'' (HTLCInstance demo_htlc)
          3000000000000000000) = Inr ()"
    using demo_build_world by (simp add: demo_fund_args_def)
  have d: "FundTransaction_build_transaction demo_env demo_fresh [] ''bad-string''
        (HTLCInstance demo_htlc) 3000000000000000000 =
       (Inl (AddressError (''Invalid XinFin sender '' @ quote @ ''bad-string'' @ quote @ '' address.'')
               None), demo_fresh, [])"
    using a by (simp add: FundTransaction_build_transaction_def)
  show ?thesis
    using a b c d
      fund_build_address_checks [of demo_env "''xdcd77E0d2Eef905cfB39c3C4b952Ed278d58f96E1f''"
        demo_htlc demo_fresh "[]" 3000000000000000000]
      fund_build_address_checks [of demo_env "''xdc69e04fe16c9A6A83076B3c2dc4b4Bc21b5d9A20C''"
        demo_htlc demo_fresh "[]" 3000000000000000000]
    by blast
qed

text \<open>
  \<^bold>\<open>C9\<close>, as stated, fails: on a built transaction that has not been signed, \<^verbatim>\<open>hash\<close>,
  \<^verbatim>\<open>raw\<close> and \<^verbatim>\<open>signature\<close> return \<^verbatim>\<open>None\<close>.
\<close>

theorem unsigned_accessors_counterexample:
  "build_transaction demo_env demo_fresh [] demo_fund_args = (Inr (), demo_built, demo_world 1)
   \<and> Transaction_hash demo_built = Inr None
   \<and> Transaction_raw demo_built = Inr None
   \<and> Transaction_signature demo_built = Inr None"
  using demo_build_world
  by (simp add: Transaction_hash_def Transaction_raw_def Transaction_signature_def
      demo_built_def demo_fresh_def)

text \<open>
  \<^bold>\<open>C9\<close>, amended. After a successful \<^verbatim>\<open>build_transaction\<close>, \<^verbatim>\<open>fee\<close>, \<^verbatim>\<open>json\<close>,
  \<^verbatim>\<open>type\<close> and \<^verbatim>\<open>transaction_raw\<close> return values, none of them \<^verbatim>\<open>None\<close>;
  \<^verbatim>\<open>hash\<close>, \<^verbatim>\<open>raw\<close> and \<^verbatim>\<open>signature\<close> return what the stored signature holds,
  which is \<^verbatim>\<open>None\<close> as long as no \<^verbatim>\<open>sign\<close> call has succeeded on the instance.
  After a successful \<^verbatim>\<open>sign\<close> on a built instance the three return values.
\<close>

theorem built_accessors:
  "(build_transaction e self w a = (Inr u, self', w') \<longrightarrow>
      (\<exists>fee tx ty raw.
         Transaction_fee e self' ''Wei'' = Inr (Some (IntNum fee)) \<and>
         Transaction_json self' = Inr tx \<and>
         Transaction_type self' = Inr (Some ty) \<and>
         Transaction_transaction_raw e self' = Inr raw) \<and>
      Transaction_hash self' = Inr (map_option sig_hash (self_signature self)) \<and>
      Transaction_raw self' = Inr (map_option sig_rawTransaction (self_signature self)) \<and>
      Transaction_signature self' = Inr (self_signature self))
   \<and> (self_transaction self \<noteq> None \<and> sign e r self solver = (Inr u, self'') \<longrightarrow>
        (\<exists>g. Transaction_hash self'' = Inr (Some (sig_hash g)) \<and>
             Transaction_raw self'' = Inr (Some (sig_rawTransaction g)) \<and>
             Transaction_signature self'' = Inr (Some g)))"
proof (intro conjI impI)
  assume b: "build_transaction e self w a = (Inr u, self', w')"
  obtain w0 f address amount ty where
    "estimate_then_build e self w0 f address amount ty = (Inr u, self', w')"
    using build_transaction_success [OF b] by blast
  from estimate_then_build_success [OF this] obtain fee tx where
    s: "self_fee self' = Some fee" "self_transaction self' = Some tx" "self_type self' = Some ty"
    by auto
  have g: "self_signature self' = self_signature self"
    using build_transaction_keeps [OF b] by simp
  show "\<exists>fee tx ty raw.
         Transaction_fee e self' ''Wei'' = Inr (Some (IntNum fee)) \<and>
         Transaction_json self' = Inr tx \<and>
         Transaction_type self' = Inr (Some ty) \<and>
         Transaction_transaction_raw e self' = Inr raw"
    using s by (simp add: Transaction_fee_def Transaction_json_def Transaction_type_def
        Transaction_transaction_raw_def)
  show "Transaction_hash self' = Inr (map_option sig_hash (self_signature self))"
    using s g by (simp add: Transaction_hash_def map_option_case)
  show "Transaction_raw self' = Inr (map_option sig_rawTransaction (self_signature self))"
    using s g by (simp add: Transaction_raw_def map_option_case)
  show "Transaction_signature self' = Inr (self_signature self)"
    using s g by (simp add: Transaction_signature_def)
next
  assume a: "self_transaction self \<noteq> None \<and> sign e r self solver = (Inr u, self'')"
  then have t: "self_transaction self'' \<noteq> None"
    using sign_keeps by metis
  from a obtain signed where "self_signature self'' = Some (signature_of signed)"
    using signature_written_only_by_sign_aux by blast
  with t show "\<exists>g. Transaction_hash self'' = Inr (Some (sig_hash g)) \<and>
             Transaction_raw self'' = Inr (Some (sig_rawTransaction g)) \<and>
             Transaction_signature self'' = Inr (Some g)"
    by (auto simp: Transaction_hash_def Transaction_raw_def Transaction_signature_def)
qed

text \<open>
  C9 (amended) on the example, before and after signing.
\<close>

theorem built_accessors_witness:
  "build_transaction demo_env demo_fresh [] demo_fund_args = (Inr (), demo_built, demo_world 1)
   \<and> (\<exists>fee tx ty raw.
         Transaction_fee demo_env demo_built ''Wei'' = Inr (Some (IntNum fee)) \<and>
         Transaction_json demo_built = Inr tx \<and>
         Transaction_type demo_built = Inr (Some ty) \<and>
         Transaction_transaction_raw demo_env demo_built = Inr raw)
   \<and> Transaction_hash demo_built = Inr None
   \<and> self_transaction demo_built \<noteq> None
   \<and> sign demo_env Fund demo_built (FundSolver sender_xprivate_key demo_path) =
        (Inr (), demo_signed_by sender_xprivate_key)
   \<and> (\<exists>g. Transaction_hash (demo_signed_by sender_xprivate_key) = Inr (Some (sig_hash g)) \<and>
           Transaction_raw (demo_signed_by sender_xprivate_key) = Inr (Some (sig_rawTransaction g)) \<and>
           Transaction_signature (demo_signed_by sender_xprivate_key) = Inr (Some g))"
proof -
  have n1: "self_signature demo_fresh = None"
    by (simp add: demo_fresh_def)
  have n2: "self_transaction demo_built \<noteq> None"
    by (simp add: demo_built_def)
  note A = built_accessors [where e = demo_env and self = demo_fresh and w = "[]"
            and a = demo_fund_args and u = "()" and self' = demo_built and w' = "demo_world 1",
            THEN conjunct1, THEN mp, OF demo_build_world]
  note B = built_accessors [where e = demo_env and self = demo_built and r = Fund and u = "()"
            and solver = "FundSolver sender_xprivate_key demo_path"
            and self'' = "demo_signed_by sender_xprivate_key",
            THEN conjunct2, THEN mp, OF conjI [OF n2 demo_sign_built]]
  from A n1 have h: "Transaction_hash demo_built = Inr None"
    by simp
  show ?thesis
    using demo_build_world A [THEN conjunct1] h n2 demo_sign_built B
    by (simp only: simp_thms)
qed

text \<open>
  \<^bold>\<open>C10.\<close> After a successful \<^verbatim>\<open>build_transaction\<close> of any role the stored fee is the
  \<^verbatim>\<open>gas\<close> field of the stored transaction, and \<^verbatim>\<open>fee(unit="Wei")\<close> returns it; a
  \<^verbatim>\<open>sign\<close> call, whatever its outcome, keeps both.
\<close>

theorem fee_equals_gas:
  "(build_transaction e self w a = (Inr u, self', w') \<longrightarrow>
      (\<exists>tx. self_transaction self' = Some tx \<and> self_fee self' = Some (gas tx) \<and>
            Transaction_fee e self' ''Wei'' = Inr (Some (IntNum (gas tx)))))
   \<and> (self_transaction self = Some tx \<and> self_fee self = Some (gas tx) \<and>
        sign e r self solver = (res, self'') \<longrightarrow>
        self_transaction self'' = Some tx \<and> self_fee self'' = Some (gas tx) \<and>
        Transaction_fee e self'' ''Wei'' = Inr (Some (IntNum (gas tx))))"
proof (intro conjI impI)
  assume b: "build_transaction e self w a = (Inr u, self', w')"
  obtain w0 f address amount ty where
    "estimate_then_build e self w0 f address amount ty = (Inr u, self', w')"
    using build_transaction_success [OF b] by blast
  from estimate_then_build_success [OF this]
  show "\<exists>tx. self_transaction self' = Some tx \<and> self_fee self' = Some (gas tx) \<and>
            Transaction_fee e self' ''Wei'' = Inr (Some (IntNum (gas tx)))"
    by (auto simp: Transaction_fee_def)
next
  assume a: "self_transaction self = Some tx \<and> self_fee self = Some (gas tx) \<and>
        sign e r self solver = (res, self'')"
  then have k: "self_transaction self'' = Some tx" "self_fee self'' = Some (gas tx)"
    using sign_keeps [of e r self solver res self''] by simp_all
  then show "self_transaction self'' = Some tx" "self_fee self'' = Some (gas tx)"
    "Transaction_fee e self'' ''Wei'' = Inr (Some (IntNum (gas tx)))"
    by (simp_all add: Transaction_fee_def)
qed

text \<open>
  C10 on the example: the estimate 138448 is the fee and the gas limit, before and after
  signing.
\<close>

theorem fee_equals_gas_witness:
  "build_transaction demo_env demo_fresh [] demo_fund_args = (Inr (), demo_built, demo_world 1)
   \<and> self_transaction demo_built = Some demo_transaction
   \<and> self_fee demo_built = Some (gas demo_transaction)
   \<and> gas demo_transaction = 138448
   \<and> Transaction_fee demo_env demo_built ''Wei'' = Inr (Some (IntNum 138448))
   \<and> sign demo_env Fund demo_built (FundSolver sender_xprivate_key demo_path) =
        (Inr (), demo_signed_by sender_xprivate_key)
   \<and> self_fee (demo_signed_by sender_xprivate_key) = Some (gas demo_transaction)
   \<and> Transaction_fee demo_env (demo_signed_by sender_xprivate_key) ''Wei'' = Inr (Some (IntNum 138448))"
proof -
  have n1: "self_transaction demo_built = Some demo_transaction"
    by (simp add: demo_built_def)
  have n2: "self_fee demo_built = Some (gas demo_transaction)"
    by (simp add: demo_built_def demo_transaction_def)
  have n3: "gas demo_transaction = 138448"
    by (simp add: demo_transaction_def)
  note A = fee_equals_gas [where e = demo_env and self = demo_fresh and w = "[]"
            and a = demo_fund_args and u = "()" and self' = demo_built and w' = "demo_world 1",
            THEN conjunct1, THEN mp, OF demo_build_world]
  note B = fee_equals_gas [where e = demo_env and self = demo_built and r = Fund
            and tx = demo_transaction and res = "Inr ()"
            and solver = "FundSolver sender_xprivate_key demo_path"
            and self'' = "demo_signed_by sender_xprivate_key",
            THEN conjunct2, THEN mp, OF conjI [OF n1 conjI [OF n2 demo_sign_built]]]
  from A n1 have a: "Transaction_fee demo_env demo_built ''Wei'' = Inr (Some (IntNum (gas demo_transaction)))"
    by (metis option.inject)
  from B have b: "self_fee (demo_signed_by sender_xprivate_key) = Some (gas demo_transaction)"
    "Transaction_fee demo_env (demo_signed_by sender_xprivate_key) ''Wei'' = Inr (Some (IntNum (gas demo_transaction)))"
    by blast+
  show ?thesis
    using demo_build_world n1 n2 n3 a b demo_sign_built by (simp only: simp_thms)
qed

lemma b64chars_length: "length b64chars = 64"
  by (simp add: b64chars_def)

lemma b64val_table: "map b64val b64chars = map Some [0..<64]"
  by (simp add: b64chars_def b64val_def upt_conv_Cons)

lemma b64val_b64: 
  assumes "n < 64" shows "b64val (b64 n) = Some n"
proof -
  have "b64val (b64 n) = map b64val b64chars ! n"
    using assms by (simp add: b64_def b64chars_length)
  also have "\<dots> = map Some [0..<64] ! n"
    by (simp only: b64val_table)
  also have "\<dots> = Some n"
    using assms by (simp del: upt_rec_numeral)
  finally show ?thesis .
qed

lemma b64_not_pad: 
  assumes "n < 64" shows "b64 n \<noteq> CHR ''=''"
proof -
  have "CHR ''='' \<notin> set b64chars"
    by (simp add: b64chars_def)
  moreover have "b64 n \<in> set b64chars"
    using assms by (simp add: b64_def b64chars_length)
  ultimately show ?thesis by metis
qed

lemma of_char_less_256: "(of_char (c :: char) :: nat) < 256"
  by (cases c) (simp add: of_char_Char)

lemma b64_arith:
  fixes a b c :: nat
  assumes "a < 256" "b < 256" "c < 256"
  shows "a div 4 < 64" "a mod 4 * 16 < 64" "a mod 4 * 16 + b div 16 < 64"
    "b mod 16 * 4 < 64" "b mod 16 * 4 + c div 64 < 64" "c mod 64 < 64"
    "a div 4 * 4 + a mod 4 * 16 div 16 = a"
    "a div 4 * 4 + (a mod 4 * 16 + b div 16) div 16 = a"
    "(a mod 4 * 16 + b div 16) mod 16 * 16 + b mod 16 * 4 div 4 = b"
    "(a mod 4 * 16 + b div 16) mod 16 * 16 + (b mod 16 * 4 + c div 64) div 4 = b"
    "(b mod 16 * 4 + c div 64) mod 4 * 64 + c mod 64 = c"
  using assms by (simp_all add: div_add1_eq mod_add_eq)

lemma b64decode_chars_body: "b64decode_chars (b64body bs) = Some bs"
proof (induction bs rule: b64body.induct)
  case 1
  show ?case by simp
next
  case (2 a)
  show ?case
    using b64_arith [OF of_char_less_256 [of a] of_char_less_256 [of a] of_char_less_256 [of a]]
    by (simp add: b64val_b64)
next
  case (3 a b)
  show ?case
    using b64_arith [OF of_char_less_256 [of a] of_char_less_256 [of b] of_char_less_256 [of b]]
    by (simp add: b64val_b64)
next
  case (4 a b c bs)
  show ?case
    using b64_arith [OF of_char_less_256 [of a] of_char_less_256 [of b] of_char_less_256 [of c]]
      "4.IH"
    by (simp add: b64val_b64)
qed

lemma b64body_no_pad: "CHR ''='' \<notin> set (b64body bs)"
proof (induction bs rule: b64body.induct)
  case 1
  show ?case by simp
next
  case (2 a)
  show ?case
    using b64_arith(1,2) [OF of_char_less_256 [of a] of_char_less_256 [of a] of_char_less_256 [of a]]
    by (simp add: b64_not_pad [THEN not_sym])
next
  case (3 a b)
  show ?case
    using b64_arith(1,3,4) [OF of_char_less_256 [of a] of_char_less_256 [of b] of_char_less_256 [of b]]
    by (simp add: b64_not_pad [THEN not_sym])
next
  case (4 a b c bs)
  show ?case
    using b64_arith(1,3,5,6) [OF of_char_less_256 [of a] of_char_less_256 [of b] of_char_less_256 [of c]]
      "4.IH"
    by (simp add: b64_not_pad [THEN not_sym])
qed

lemma b64encode_body: "\<exists>k. b64encode bs = b64body bs @ replicate k (CHR ''='')"
proof (induction bs rule: b64encode.induct)
  case 1
  show ?case by simp
next
  case (2 a)
  have "b64encode [a] = b64body [a] @ replicate 2 (CHR ''='')"
    by (simp add: numeral_2_eq_2)
  then show ?case by (rule exI)
next
  case (3 a b)
  have "b64encode [a, b] = b64body [a, b] @ replicate 1 (CHR ''='')"
    by simp
  then show ?case by (rule exI)
next
  case (4 a b c bs)
  then obtain k where "b64encode bs = b64body bs @ replicate k (CHR ''='')" ..
  then have "b64encode (a # b # c # bs) = b64body (a # b # c # bs) @ replicate k (CHR ''='')"
    by simp
  then show ?case by (rule exI)
qed

lemma strip_padding_append_pad: "strip_padding (s @ replicate k (CHR ''='')) = strip_padding s"
  by (simp add: strip_padding_def dropWhile_append3 dropWhile_append)

lemma strip_padding_id: "CHR ''='' \<notin> set s \<Longrightarrow> strip_padding s = s"
proof -
  assume a: "CHR ''='' \<notin> set s"
  have "dropWhile (\<lambda>c. c = CHR ''='') (rev s) = rev s"
  proof (cases "rev s")
    case Nil
    then show ?thesis by simp
  next
    case (Cons c cs)
    then have "c \<in> set s" by (metis list.set_intros(1) set_rev)
    with a have "c \<noteq> CHR ''=''" by metis
    with Cons show ?thesis by simp
  qed
  then show ?thesis by (simp add: strip_padding_def)
qed

lemma strip_padding_idem: "strip_padding (strip_padding s) = strip_padding s"
  by (simp add: strip_padding_def)

lemma strip_padding_b64encode: "strip_padding (b64encode bs) = b64body bs"
proof -
  obtain k where "b64encode bs = b64body bs @ replicate k (CHR ''='')"
    using b64encode_body by blast
  then show ?thesis
    by (simp add: strip_padding_append_pad strip_padding_id b64body_no_pad)
qed

lemma b64decode_b64encode:
  assumes "strip_padding t = strip_padding (b64encode bs)"
  shows "b64decode t = Some bs"
  using assms by (simp add: b64decode_def strip_padding_b64encode b64decode_chars_body)

lemma digit_table: "map (\<lambda>c. (of_char c :: nat)) ''0123456789'' = map (\<lambda>n. 48 + n) [0..<10]"
  by (simp add: upt_conv_Cons)

lemma of_char_digit:
  assumes "n < 10" shows "(of_char (digit n) :: nat) = 48 + n"
proof -
  have "map (\<lambda>c. (of_char c :: nat)) ''0123456789'' ! n = of_char (''0123456789'' ! n)"
    using assms by (intro nth_map) simp
  then have "(of_char (digit n) :: nat) = map (\<lambda>c. (of_char c :: nat)) ''0123456789'' ! n"
    by (simp only: digit_def)
  also have "\<dots> = map (\<lambda>n. 48 + n) [0..<10] ! n"
    by (simp only: digit_table)
  also have "\<dots> = 48 + n"
    using assms by (simp del: upt_rec_numeral)
  finally show ?thesis .
qed

lemma is_digit_digit: "n < 10 \<Longrightarrow> is_digit (digit n)"
  by (simp add: is_digit_def of_char_digit)

lemma dec_digits: "\<forall>c \<in> set (dec n). is_digit c"
proof (induction n rule: dec.induct)
  case (1 n)
  show ?case
  proof (cases "n < 10")
    case True
    then show ?thesis by (subst dec.simps) (simp add: is_digit_digit)
  next
    case False
    with 1 show ?thesis by (subst dec.simps) (simp add: is_digit_digit)
  qed
qed

lemma dec_nonempty: "dec n \<noteq> []"
  by (subst dec.simps) simp

lemma digits_value_snoc: "digits_value (ds @ [c]) = digits_value ds * 10 + (of_char c - 48)"
  by (simp add: digits_value_def)

lemma digits_value_dec: "digits_value (dec n) = n"
proof (induction n rule: dec.induct)
  case (1 n)
  show ?case
  proof (cases "n < 10")
    case True
    then show ?thesis
      by (subst dec.simps) (simp add: digits_value_def of_char_digit)
  next
    case False
    with 1 have "digits_value (dec (n div 10)) = n div 10" by simp
    with False show ?thesis
      by (subst dec.simps) (simp add: digits_value_snoc of_char_digit)
  qed
qed

lemma takeWhile_dec: "ok_rest rest \<Longrightarrow> takeWhile is_digit (dec n @ rest) = dec n"
  using dec_digits [of n]
  by (cases rest) (simp_all add: ok_rest_def takeWhile_append2 takeWhile_eq_all_conv)

lemma dropWhile_dec: "ok_rest rest \<Longrightarrow> dropWhile is_digit (dec n @ rest) = rest"
  using dec_digits [of n]
  by (cases rest) (simp_all add: ok_rest_def dropWhile_append2 dropWhile_append)

lemma hd_dec_digit: "\<exists>c s. dec n = c # s \<and> is_digit c"
  using dec_digits [of n] dec_nonempty [of n] by (cases "dec n") auto

lemma minus_not_digit: "\<not> is_digit (CHR ''-'')"
  by (simp add: is_digit_def)

lemma loads_int_repr_int:
  assumes "ok_rest rest"
  shows "loads_int (repr_int i @ rest) = Some (i, rest)"
proof (cases "i < 0")
  case True
  then show ?thesis
    using assms dec_nonempty [of "nat (- i)"]
    by (simp add: loads_int_def repr_int_def takeWhile_dec dropWhile_dec digits_value_dec)
next
  case False
  obtain c s where cs: "dec (nat i) = c # s" "is_digit c"
    using hd_dec_digit by blast
  then have "c \<noteq> CHR ''-''" using minus_not_digit by metis
  moreover have "takeWhile is_digit (c # s @ rest) = dec (nat i)"
    "dropWhile is_digit (c # s @ rest) = rest"
    using takeWhile_dec [OF assms, of "nat i"] dropWhile_dec [OF assms, of "nat i"] cs by simp_all
  moreover have "digits_value (c # s) = nat i"
    using digits_value_dec [of "nat i"] cs by simp
  ultimately show ?thesis
    using False cs by (simp add: loads_int_def repr_int_def del: takeWhile.simps dropWhile.simps)
qed

lemma hexval_table: "map hexval ''0123456789abcdef'' = map Some [0..<16]"
  by (simp add: hexval_def upt_conv_Cons)

lemma hexval_hexdigit:
  assumes "k < 16" shows "hexval (hexdigit k) = Some k"
proof -
  have "map hexval ''0123456789abcdef'' ! k = hexval (''0123456789abcdef'' ! k)"
    using assms by (intro nth_map) simp
  then have "hexval (hexdigit k) = map hexval ''0123456789abcdef'' ! k"
    by (simp only: hexdigit_def)
  also have "\<dots> = map Some [0..<16] ! k"
    by (simp only: hexval_table)
  also have "\<dots> = Some k"
    using assms by (simp del: upt_rec_numeral)
  finally show ?thesis .
qed

lemma unicode_escape_hexdigit:
  "unicode_escape (CHR ''0'') (CHR ''0'') (hexdigit (of_char c div 16)) (hexdigit (of_char c mod 16))
     = Some c"
proof -
  have a: "(of_char c :: nat) div 16 < 16" "(of_char c :: nat) mod 16 < 16"
    using of_char_less_256 [of c] by (simp_all add: less_mult_imp_div_less)
  have z: "hexval (CHR ''0'') = Some 0"
    by (simp add: hexval_def)
  show ?thesis
    by (simp add: unicode_escape_def z hexval_hexdigit [OF a(1)] hexval_hexdigit [OF a(2)])
qed

lemma loads_chars_unicode:
  "loads_chars (backslash # CHR ''u'' # CHR ''0'' # CHR ''0'' # hexdigit (of_char c div 16)
                 # hexdigit (of_char c mod 16) # s) =
     (case loads_chars s of None \<Rightarrow> None | Some (xs, rest) \<Rightarrow> Some (c # xs, rest))"
  by (simp add: unicode_escape_hexdigit dquote_def backslash_def)

lemma loads_chars_escape:
  "loads_chars (escape_char c @ s) =
     (case loads_chars s of None \<Rightarrow> None | Some (xs, rest) \<Rightarrow> Some (c # xs, rest))"
proof (cases "c = dquote \<or> c = backslash \<or> c = CHR 0x0A \<or> c = CHR 0x0D \<or> c = CHR 0x09
    \<or> c = CHR 0x08 \<or> c = CHR 0x0C")
  case True
  then show ?thesis
    by (elim disjE) (simp_all add: escape_char_def unescape_def dquote_def backslash_def split: option.splits)
next
  case False
  note special = this
  show ?thesis
  proof (cases "32 \<le> (of_char c :: nat) \<and> (of_char c :: nat) \<le> 126")
    case True
    with special have "escape_char c = [c]" "c \<noteq> dquote" "c \<noteq> backslash"
      by (simp_all add: escape_char_def)
    then show ?thesis by simp
  next
    case False
    with special have "escape_char c = [backslash, CHR ''u'', CHR ''0'', CHR ''0'',
            hexdigit (of_char c div 16), hexdigit (of_char c mod 16)]"
      by (simp add: escape_char_def)
    then show ?thesis by (simp only: append_Cons append_Nil loads_chars_unicode)
  qed
qed

lemma loads_chars_string:
  "loads_chars (concat (map escape_char s) @ dquote # rest) = Some (s, rest)"
  by (induction s) (simp_all add: loads_chars_escape)

lemma loads_chars_dumps_str:
  "\<exists>t. dumps_str s @ rest = dquote # t \<and> loads_chars t = Some (s, rest)"
  by (simp add: dumps_str_def loads_chars_string)

lemma skip_space_Cons: "\<not> is_space c \<Longrightarrow> skip_space (c # s) = c # s"
  by (simp add: skip_space_def)

lemma skip_space_blank: "skip_space (CHR '' '' # s) = skip_space s"
  by (simp add: skip_space_def is_space_def)

lemma loads_value_blank: "loads_value n (CHR '' '' # t) = loads_value n t"
  by (cases n) (simp_all add: skip_space_blank)

lemma digit_not_special:
  assumes "is_digit c"
  shows "\<not> is_space c" "c \<noteq> dquote" "c \<noteq> CHR ''{''" "c \<noteq> CHR ''n''" "c \<noteq> CHR ''-''"
  using assms by (auto simp: is_digit_def is_space_def dquote_def)

lemma repr_int_head:
  "\<exists>c s. repr_int i = c # s \<and> \<not> is_space c \<and> c \<noteq> dquote \<and> c \<noteq> CHR ''{'' \<and> c \<noteq> CHR ''n''"
proof (cases "i < 0")
  case True
  then show ?thesis by (simp add: repr_int_def is_space_def dquote_def)
next
  case False
  obtain c s where "dec (nat i) = c # s" "is_digit c"
    using hd_dec_digit by blast
  with False show ?thesis by (simp add: repr_int_def digit_not_special)
qed

lemma dumps_str_head: "\<exists>t. dumps_str k = dquote # t"
  by (simp add: dumps_str_def)

lemma dquote_not_space: "\<not> is_space dquote" "dquote \<noteq> CHR ''}''"
  by (simp_all add: is_space_def dquote_def)

lemma dumps_str_length: "2 \<le> length (dumps_str k)"
  by (simp add: dumps_str_def)

lemma loads_members_key:
  "loads_members (Suc n) (dumps_str k @ CHR '':'' # CHR '' '' # t) =
     (case loads_value n t of
        None \<Rightarrow> None
      | Some (v, r3) \<Rightarrow>
          (case skip_space r3 of
             [] \<Rightarrow> None
           | c2 # r4 \<Rightarrow>
               if c2 = CHR ''}'' then Some ([(k, v)], r4)
               else if c2 = CHR '','' then
                 (case loads_members n (skip_space r4) of
                    None \<Rightarrow> None
                  | Some (kvs, rest) \<Rightarrow> Some ((k, v) # kvs, rest))
               else None))"
proof -
  obtain u where u: "dumps_str k @ CHR '':'' # CHR '' '' # t = dquote # u"
    "loads_chars u = Some (k, CHR '':'' # CHR '' '' # t)"
    using loads_chars_dumps_str [of k "CHR '':'' # CHR '' '' # t"] by blast
  have c: "skip_space (CHR '':'' # CHR '' '' # t) = CHR '':'' # CHR '' '' # t"
    by (simp add: skip_space_def is_space_def)
  show ?thesis
    by (simp add: u c loads_value_blank del: dumps_str_def)
qed

lemma ok_rest_simps:
  "ok_rest []" "ok_rest (CHR ''}'' # s)" "ok_rest (CHR '','' # s)"
  by (simp_all add: ok_rest_def is_digit_def)

lemma json_dumps_head: "\<exists>c s. json_dumps v = c # s \<and> \<not> is_space c"
proof (cases v)
  case JNull
  then show ?thesis by (simp add: is_space_def)
next
  case (JInt i)
  then show ?thesis using repr_int_head [of i] by auto
next
  case (JStr s)
  then show ?thesis by (simp add: dumps_str_def dquote_not_space)
next
  case (JObj kvs)
  then show ?thesis by (simp add: is_space_def)
qed

lemma loads_value_skip:
  "loads_value n (CHR '' '' # json_dumps v @ rest) = loads_value n (json_dumps v @ rest)"
  by (rule loads_value_blank)

lemma dumps_items_head: "kvs \<noteq> [] \<Longrightarrow> \<exists>t. dumps_items kvs = dquote # t"
proof -
  assume "kvs \<noteq> []"
  then obtain k v r where kvs: "kvs = (k, v) # r"
    by (cases kvs) auto
  show ?thesis
    by (cases r) (simp_all add: kvs dumps_str_def)
qed

lemma loads_dumps:
  "length (json_dumps v) \<le> n \<Longrightarrow> ok_rest rest \<Longrightarrow>
     loads_value (Suc n) (json_dumps v @ rest) = Some (v, rest)"
  "kvs \<noteq> [] \<Longrightarrow> length (dumps_items kvs) \<le> n \<Longrightarrow>
     loads_members (Suc n) (dumps_items kvs @ CHR ''}'' # rest) = Some (kvs, rest)"
proof (induction v and kvs arbitrary: n rest and n rest rule: json_dumps_dumps_items.induct)
  case 1
  show ?case
    by (simp add: skip_space_def is_space_def dquote_def)
next
  case (2 i)
  obtain c s where cs: "repr_int i = c # s" "\<not> is_space c" "c \<noteq> dquote" "c \<noteq> CHR ''{''"
    "c \<noteq> CHR ''n''"
    using repr_int_head by blast
  have "loads_int (c # s @ rest) = Some (i, rest)"
    using loads_int_repr_int [OF "2.prems"(2), of i] cs(1) by simp
  then show ?case
    using cs by (simp add: skip_space_Cons)
next
  case (3 s)
  obtain t where t: "dumps_str s @ rest = dquote # t" "loads_chars t = Some (s, rest)"
    using loads_chars_dumps_str by blast
  show ?case
    by (simp add: t skip_space_Cons dquote_not_space del: dumps_str_def)
next
  case (4 kvs)
  show ?case
  proof (cases "kvs = []")
    case True
    then show ?thesis
      by (simp add: skip_space_def is_space_def dquote_def)
  next
    case False
    then obtain t where t: "dumps_items kvs = dquote # t"
      using dumps_items_head by blast
    from "4.prems"(1) obtain m where m: "n = Suc m" "length (dumps_items kvs) \<le> m"
      by (cases n) simp_all
    have "loads_members (Suc m) (dumps_items kvs @ CHR ''}'' # rest) = Some (kvs, rest)"
      using "4.IH" [OF False m(2)] .
    then have "loads_members n (dquote # t @ CHR ''}'' # rest) = Some (kvs, rest)"
      by (simp add: t m(1))
    then show ?thesis
      by (simp add: t skip_space_def is_space_def dquote_def)
  qed
next
  case 5
  then show ?case by simp
next
  case (6 k v)
  from "6.prems"(2) dumps_str_length [of k]
  obtain m where m: "n = Suc m" "length (json_dumps v) \<le> m"
    by (cases n) simp_all
  have v: "loads_value n (json_dumps v @ CHR ''}'' # rest) = Some (v, CHR ''}'' # rest)"
    using "6.IH" [OF m(2) ok_rest_simps(2)] by (simp add: m(1))
  have "loads_members (Suc n) (dumps_str k @ CHR '':'' # CHR '' '' # json_dumps v @ CHR ''}'' # rest)
          = Some ([(k, v)], rest)"
    by (simp only: loads_members_key v) (simp add: skip_space_def is_space_def)
  then show ?case by simp
next
  case (7 k v kv kvs)
  from "7.prems"(2) dumps_str_length [of k]
  obtain m where m: "n = Suc m" "length (json_dumps v) \<le> m" "length (dumps_items (kv # kvs)) \<le> m"
    by (cases n) simp_all
  have v: "loads_value n (json_dumps v @ CHR '','' # CHR '' '' # dumps_items (kv # kvs) @ CHR ''}'' # rest)
             = Some (v, CHR '','' # CHR '' '' # dumps_items (kv # kvs) @ CHR ''}'' # rest)"
    using "7.IH"(1) [OF m(2) ok_rest_simps(3)] by (simp add: m(1))
  obtain t where t: "dumps_items (kv # kvs) = dquote # t"
    using dumps_items_head [of "kv # kvs"] by blast
  have r: "loads_members n (dumps_items (kv # kvs) @ CHR ''}'' # rest) = Some (kv # kvs, rest)"
    using "7.IH"(2) [OF _ m(3)] by (simp add: m(1))
  have s: "skip_space (CHR '' '' # dumps_items (kv # kvs) @ CHR ''}'' # rest)
             = dumps_items (kv # kvs) @ CHR ''}'' # rest"
    by (simp add: t skip_space_blank skip_space_Cons dquote_not_space)
  have "loads_members (Suc n) (dumps_str k @ CHR '':'' # CHR '' '' # json_dumps v
          @ CHR '','' # CHR '' '' # dumps_items (kv # kvs) @ CHR ''}'' # rest)
          = Some ((k, v) # kv # kvs, rest)"
    by (simp only: loads_members_key v) (simp add: skip_space_Cons is_space_def s r)
  then show ?case by simp
qed

lemma json_loads_dumps: "json_loads (json_dumps v) = Some v"
  using loads_dumps(1) [of v "length (json_dumps v)" "[]"]
  by (simp add: json_loads_def ok_rest_simps skip_space_def)

lemma ascii_simps:
  "ascii []" "ascii (c # s) \<longleftrightarrow> (of_char c :: nat) < 128 \<and> ascii s"
  "ascii (s @ t) \<longleftrightarrow> ascii s \<and> ascii t"
  by (auto simp: ascii_def)

lemma hexdigit_ascii: 
  assumes "k < 16" shows "(of_char (hexdigit k) :: nat) < 128"
proof -
  have "ascii ''0123456789abcdef''"
    by (simp add: ascii_simps)
  moreover have "hexdigit k \<in> set ''0123456789abcdef''"
    unfolding hexdigit_def using assms by (intro nth_mem) simp
  ultimately show ?thesis
    unfolding ascii_def by blast
qed

lemma escape_char_ascii: "ascii (escape_char c)"
proof -
  have a: "(of_char c :: nat) div 16 < 16" "(of_char c :: nat) mod 16 < 16"
    using of_char_less_256 [of c] by (simp_all add: less_mult_imp_div_less)
  show ?thesis
    by (simp add: escape_char_def ascii_simps dquote_def backslash_def
        hexdigit_ascii [OF a(1)] hexdigit_ascii [OF a(2)])
qed

lemma dumps_str_ascii: "ascii (dumps_str s)"
proof -
  have "ascii (concat (map escape_char s))"
    by (induction s) (simp_all add: ascii_simps escape_char_ascii)
  then show ?thesis
    by (simp add: dumps_str_def ascii_simps dquote_def)
qed

lemma repr_int_ascii: "ascii (repr_int i)"
proof -
  have "ascii (dec n)" for n
    using dec_digits [of n] by (auto simp: ascii_def is_digit_def)
  then show ?thesis
    by (simp add: repr_int_def ascii_simps)
qed

lemma json_dumps_ascii: "ascii (json_dumps v)" "ascii (dumps_items kvs)"
proof (induction v and kvs rule: json_dumps_dumps_items.induct)
  case 1
  show ?case by (simp add: ascii_simps)
next
  case (2 i)
  show ?case by (simp add: repr_int_ascii)
next
  case (3 s)
  show ?case by (simp add: dumps_str_ascii del: dumps_str_def)
next
  case (4 kvs)
  then show ?case by (simp add: ascii_simps)
next
  case 5
  show ?case by (simp add: ascii_simps)
next
  case (6 k v)
  then show ?case by (simp add: ascii_simps dumps_str_ascii)
next
  case (7 k v kv kvs)
  then show ?case by (simp add: ascii_simps dumps_str_ascii)
qed

lemma str_encode_ascii: "ascii s \<Longrightarrow> str_encode s = s"
  by (induction s) (simp_all add: str_encode_def utf8_def ascii_simps)

lemma utf8_decode_ascii: "ascii s \<Longrightarrow> utf8_decode s = Some s"
  by (induction s rule: utf8_decode.induct) (simp_all add: ascii_simps)

lemma transaction_of_json_inverse: "transaction_of_json (transaction_json t) = Some t"
  by (simp add: transaction_of_json_def transaction_json_def)

lemma decode_encode:
  assumes "only_padding (clean_transaction_raw e)"
  shows "decode_transaction_raw
           (clean_transaction_raw e (b64encode (str_encode (json_dumps (raw_dict self)))))
         = Inr (raw_dict self)"
proof -
  have "strip_padding (clean_transaction_raw e (b64encode (json_dumps (raw_dict self))))
          = strip_padding (b64encode (json_dumps (raw_dict self)))"
    using assms by (simp add: only_padding_def)
  then have "b64decode (clean_transaction_raw e (b64encode (json_dumps (raw_dict self))))
          = Some (json_dumps (raw_dict self))"
    by (rule b64decode_b64encode)
  then show ?thesis
    by (simp add: decode_transaction_raw_def str_encode_ascii utf8_decode_ascii json_dumps_ascii
        json_loads_dumps)
      (simp add: raw_dict_def)
qed

lemma only_padding_strip: "only_padding strip_padding"
  by (simp add: only_padding_def strip_padding_idem)

lemma unsigned_role_type: "unsigned_role (unsigned_type r) = Some r"
  by (cases r) (simp_all add: unsigned_role_def)

lemma fee_of_json_inverse: "fee_of_json (json_option JInt f) = Some f"
  by (cases f) (simp_all add: fee_of_json_def json_option_def)

lemma sign_rebuilt:
  assumes "self_transaction self = Some tx" "self_type self = Some ty"
  shows "sign e r \<lparr>self_network = self_network self, self_transaction = Some tx,
                    self_signature = None, self_type = Some ty, self_fee = self_fee self\<rparr> solver =
           (case sign e r self solver of
              (Inl x, _) \<Rightarrow>
                (Inl x, \<lparr>self_network = self_network self, self_transaction = Some tx,
                         self_signature = None, self_type = Some ty, self_fee = self_fee self\<rparr>)
            | (Inr u, signed) \<Rightarrow> (Inr u, signed))"
proof (cases "solver_role solver = Some r")
  case True
  then obtain x p where s: "solver = role_solver r x p"
    by (auto simp: solver_role_eq)
  show ?thesis
    using assms by (cases self) (simp add: s sign_role_solver sign_with_def split: sum.splits)
next
  case False
  then show ?thesis
    by (cases r; cases solver)
       (simp_all add: FundTransaction_sign_def WithdrawTransaction_sign_def
          RefundTransaction_sign_def)
qed

lemma build_transaction_unsigned:
  assumes "build_transaction e self w a = (Inr u, self', w')"
  shows "\<exists>tx. self_transaction self' = Some tx \<and> self_type self' = Some (unsigned_type (args_role a))"
proof (cases a)
  case (FundArgs address h amount)
  with assms show ?thesis
    by (auto simp: FundTransaction_build_transaction_def Let_def
        split: htlc_arg.splits if_splits dest!: estimate_then_build_success)
next
  case (WithdrawArgs th address sk hth)
  with assms show ?thesis
    by (auto simp: WithdrawTransaction_build_transaction_def
        split: if_splits prod.splits sum.splits dest!: estimate_then_build_success)
next
  case (RefundArgs th address hth)
  with assms show ?thesis
    by (auto simp: RefundTransaction_build_transaction_def
        split: if_splits prod.splits sum.splits dest!: estimate_then_build_success)
qed


theorem signature_facade_agrees:
  assumes "only_padding (clean_transaction_raw e)"
    and "self_transaction self = Some tx"
    and "self_type self = Some (unsigned_type r)"
    and "Transaction_transaction_raw e self = Inr raw"
  shows "(sign e r self solver = (Inr u, signed) \<longrightarrow>
            (\<exists>facade signed_raw.
               Signature_sign e raw solver = Inr facade \<and>
               Transaction_transaction_raw e signed = Inr signed_raw \<and>
               Transaction_transaction_raw e facade = Inr signed_raw))
       \<and> (sign e r self solver = (Inl x, self') \<longrightarrow> Signature_sign e raw solver = Inl x)"
proof -
  from assms(4) have "raw = clean_transaction_raw e (b64encode (str_encode (json_dumps (raw_dict self))))"
    by (auto simp: Transaction_transaction_raw_def split: option.splits)
  then have d: "decode_transaction_raw raw = Inr (raw_dict self)"
    using decode_encode [OF assms(1)] by simp
  have f: "Signature_sign e raw solver =
             (case sign e r self solver of (Inl x, _) \<Rightarrow> Inl x | (Inr u, signed) \<Rightarrow> Inr signed)"
    by (simp add: Signature_sign_def d raw_dict_def assms(2,3) json_option_def
        unsigned_role_type fee_of_json_inverse [unfolded json_option_def]
        transaction_of_json_inverse sign_rebuilt [OF assms(2,3)]
        split: prod.splits sum.splits)
  show ?thesis
  proof (intro conjI impI)
    assume s: "sign e r self solver = (Inr u, signed)"
    then have "self_transaction signed = Some tx"
      using sign_keeps assms(2) by metis
    then obtain signed_raw where "Transaction_transaction_raw e signed = Inr signed_raw"
      by (simp add: Transaction_transaction_raw_def)
    moreover have "Signature_sign e raw solver = Inr signed"
      using s by (simp add: f)
    ultimately show "\<exists>facade signed_raw.
               Signature_sign e raw solver = Inr facade \<and>
               Transaction_transaction_raw e signed = Inr signed_raw \<and>
               Transaction_transaction_raw e facade = Inr signed_raw"
      by blast
  next
    assume "sign e r self solver = (Inl x, self')"
    then show "Signature_sign e raw solver = Inl x"
      by (simp add: f)
  qed
qed

lemma only_padding_demo: "only_padding (clean_transaction_raw demo_env)"
  by (simp add: demo_env_def only_padding_strip)

lemma demo_raw_value: "Transaction_transaction_raw demo_env demo_built = Inr demo_raw"
  by (simp add: Transaction_transaction_raw_def demo_env_def demo_built_def demo_fresh_def
      demo_transaction_def raw_dict_def json_option_def transaction_json_def
      str_encode_def utf8_def dumps_str_def escape_char_def dquote_def backslash_def
      repr_int_def dec.simps digit_def b64_def b64chars_def strip_padding_def demo_raw_def)


theorem signature_facade_agrees_witness:
  "only_padding (clean_transaction_raw demo_env)
   \<and> self_transaction demo_built = Some demo_transaction
   \<and> self_type demo_built = Some (unsigned_type Fund)
   \<and> Transaction_transaction_raw demo_env demo_built = Inr demo_raw
   \<and> sign demo_env Fund demo_built (FundSolver sender_xprivate_key demo_path) =
        (Inr (), demo_signed_by sender_xprivate_key)
   \<and> (\<exists>facade signed_raw.
         Signature_sign demo_env demo_raw (FundSolver sender_xprivate_key demo_path) = Inr facade \<and>
         Transaction_transaction_raw demo_env (demo_signed_by sender_xprivate_key) = Inr signed_raw \<and>
         Transaction_transaction_raw demo_env facade = Inr signed_raw)
   \<and> Signature_sign demo_env demo_raw (FundSolver other_xprivate_key demo_path) =
        Inl (TypeError (''from field must match key's ''
               @ ''0xd77E0d2Eef905cfB39c3C4b952Ed278d58f96E1f''
               @ '', but it was '' @ ''0x69e04fe16c9A6A83076B3c2dc4b4Bc21b5d9A20C''))"
proof -
  have t: "self_transaction demo_built = Some demo_transaction"
    "self_type demo_built = Some (unsigned_type Fund)"
    by (simp_all add: demo_built_def)
  note T = signature_facade_agrees [OF only_padding_demo t demo_raw_value]
  note A = T [where solver = "FundSolver sender_xprivate_key demo_path" and u = "()"
               and signed = "demo_signed_by sender_xprivate_key",
             THEN conjunct1, THEN mp, OF demo_sign_built]
  note B = T [where solver = "FundSolver other_xprivate_key demo_path" and self' = demo_built,
             THEN conjunct2, THEN mp, OF demo_sign_other_key]
  show ?thesis
    using only_padding_demo t demo_raw_value demo_sign_built A B by (simp only: simp_thms)
qed

end
